theory Spec2Isabelle
  imports Complex_Main
begin

section \<open>JavaScript values\<close>

text \<open>
  A JavaScript number as the code meets it: an integer or \<open>NaN\<close> (what \<open>parseInt\<close>
  and \<open>undefined + undefined\<close> produce).  Token counts and limits are integers, so
  fractions and infinities are left out.  A value that may be \<open>null\<close> or \<open>undefined\<close>
  is a \<open>jsnum option\<close>, \<open>None\<close> standing for both.
\<close>

datatype jsnum = NaN | Num int

text \<open>\<open>isNaN(x)\<close>, and the comparisons \<open>x <= y\<close> and \<open>x > y\<close>: false as soon as one
  side is \<open>NaN\<close>.\<close>

fun isNaN :: "jsnum \<Rightarrow> bool" where
  "isNaN NaN = True"
| "isNaN (Num n) = False"

fun js_le :: "jsnum \<Rightarrow> jsnum \<Rightarrow> bool" where
  "js_le (Num a) (Num b) = (a \<le> b)"
| "js_le a b = False"

fun js_gt :: "jsnum \<Rightarrow> jsnum \<Rightarrow> bool" where
  "js_gt (Num a) (Num b) = (a > b)"
| "js_gt a b = False"

text \<open>Truthiness of a number that may be missing: \<open>null\<close>, \<open>undefined\<close>, \<open>NaN\<close> and
  \<open>0\<close> are falsy.\<close>

fun truthy :: "jsnum option \<Rightarrow> bool" where
  "truthy (Some (Num n)) = (n \<noteq> 0)"
| "truthy v = False"

text \<open>\<open>v || d\<close> where \<open>d\<close> is an integer.\<close>

fun js_or :: "jsnum option \<Rightarrow> int \<Rightarrow> int" where
  "js_or (Some (Num n)) d = (if n \<noteq> 0 then n else d)"
| "js_or v d = d"

text \<open>
  \<open>a + b\<close> on two integers: JavaScript adds them as doubles, so the sum is rounded to
  53 significant bits, ties to even.  Up to \<open>2^53\<close> in size the sum is exact.
\<close>

fun bit_length :: "nat \<Rightarrow> nat" where
  "bit_length n = (if n = 0 then 0 else Suc (bit_length (n div 2)))"

declare bit_length.simps [simp del]

definition round53_nat :: "nat \<Rightarrow> nat" where
  "round53_nat m =
     (let k = bit_length m - 53;
          q = m div 2 ^ k;
          r = m mod 2 ^ k
      in (if 2 * r > 2 ^ k \<or> (2 * r = 2 ^ k \<and> odd q) then q + 1 else q) * 2 ^ k)"

definition round53 :: "int \<Rightarrow> int" where
  "round53 n = (if n < 0 then - int (round53_nat (nat (- n))) else int (round53_nat (nat n)))"

definition js_plus :: "int \<Rightarrow> int \<Rightarrow> int" where
  "js_plus a b = round53 (a + b)"

section \<open>The store: tables of \<open>db.js\<close>\<close>

text \<open>
  The three tables \<open>initializeDatabase\<close> creates, and SQLite's own \<open>sqlite_sequence\<close>
  (the last identifier \<open>AUTOINCREMENT\<close> gave out, per table).  A row of \<open>usage_stats\<close>
  is shown without its \<open>id\<close>, which no statement of the code reads.
\<close>

record usage_row =
  total_tokens_used :: int
  total_limit :: int

record chat_row =
  row_id :: nat
  user_input :: string
  response :: string
  gemini_token_count :: int
  tiktoken_estimate :: "int option"
  model :: string
  temperature :: rat
  max_tokens :: int
  timestamp :: nat

record comparison_row =
  comparison_id :: nat
  chat_id :: nat
  gemini_tokens :: int
  difference :: int

record tables =
  usage_stats :: "usage_row list"
  chat_history :: "chat_row list"
  token_comparisons :: "comparison_row list"
  sqlite_sequence :: "(string \<times> nat) list"

text \<open>
  The errors the code throws.  Every one is a plain \<open>Error\<close> in the source, told apart
  by its message; \<open>StorageFailure\<close> is an error raised by the SQLite driver itself,
  \<open>TransportFailure\<close> one raised by \<open>ws.send\<close>, \<open>UpstreamFailure\<close> one raised by the
  Gemini client; \<open>SyntaxError\<close>, \<open>TypeError\<close> and \<open>ReferenceError\<close> are those of the
  language itself (\<open>JSON.parse\<close> on a malformed text, a property read on \<open>null\<close>, a name
  that is not defined).
\<close>

datatype error =
    InvalidExtensionAmount
  | ExtensionExceedsMaximum jsnum
  | UsageStatsNotFound
  | InvalidTokenLimit
  | StorageFailure
  | TransportFailure
  | UpstreamFailure
  | SyntaxError
  | TypeError
  | ReferenceError

section \<open>The server process\<close>

text \<open>
  Everything the modules share.  \<open>handle\<close> says whether the module variable \<open>db\<close> of
  \<open>db.js\<close> is set.  \<open>store\<close> is what statements on the connection read and write;
  \<open>txn\<close> holds the tables as they were at \<open>BEGIN TRANSACTION\<close> while a transaction is
  open, and \<open>ROLLBACK\<close> puts them back.  \<open>faults\<close> is the behaviour of the driver, given
  from outside: one flag per statement still to come, \<open>True\<close> when the driver rejects
  that statement (an exhausted list rejects nothing).  \<open>clock\<close> is the system time that
  \<open>CURRENT_TIMESTAMP\<close> reads.  \<open>wsClients\<close> is the \<open>Map\<close> of \<open>wsServer.js\<close>, in insertion
  order, a socket being known by its \<open>ws_id\<close>; \<open>send_throws\<close> says whether \<open>send\<close> on the
  socket throws.  \<open>wire\<close> lists what \<open>send\<close> has handed to which socket, oldest first.
\<close>

datatype ready_state = CONNECTING | OPEN | CLOSING | CLOSED

record websocket =
  ws_id :: nat
  readyState :: ready_state
  send_throws :: bool

record client_info =
  client_id :: string
  ip :: string
  connectedAt :: nat
  isAdmin :: bool
  lastActivity :: nat

record usage_payload =
  totalTokensUsed :: int
  limit :: int
  remaining :: int
  exceeded :: bool

text \<open>
  What goes over a WebSocket: the objects the code passes to \<open>JSON.stringify\<close>, by
  their \<open>type\<close> tag, without the \<open>timestamp\<close> each carries.  An \<open>update\<close> names where it
  comes from: \<open>source: 'system'\<close>, \<open>requestedBy\<close>, or \<open>initiatedBy\<close> with the notice of an
  extension (by how much) or of a clearing.
\<close>

datatype origin =
    System
  | RequestedBy string
  | LimitExtendedBy string int
  | DatabaseClearedBy string

datatype extend_failure =
    InvalidAmountProvided
  | AmountExceedsMaximum int
  | ExtendFailed error

datatype message =
    Update usage_payload "chat_row list option" origin
  | ErrorMessage string "error option"
  | ExtendLimitResponseFailure extend_failure string
  | ExtendLimitResponseSuccess int int int int string
  | ClearDatabaseResponseFailure error string
  | ClearDatabaseResponseSuccess usage_payload string
  | Pong string
  | ClientList "(string \<times> nat \<times> nat \<times> bool) list" nat string

record server =
  handle :: bool
  store :: tables
  txn :: "tables option"
  faults :: "bool list"
  clock :: nat
  wsClients :: "(websocket \<times> client_info) list"
  wire :: "(nat \<times> message) list"

text \<open>
  An \<open>async\<close> function of the source is a function from the state of the process to
  its result and the state it leaves.  A thrown error is \<open>Inl\<close>; what was written before
  the throw stays written.
\<close>

type_synonym 'a io = "server \<Rightarrow> (error + 'a) \<times> server"

definition returnE :: "'a \<Rightarrow> 'a io" where
  "returnE x s = (Inr x, s)"

definition throwE :: "error \<Rightarrow> 'a io" where
  "throwE e s = (Inl e, s)"

definition bindE :: "'a io \<Rightarrow> ('a \<Rightarrow> 'b io) \<Rightarrow> 'b io" where
  "bindE m f s = (case m s of (Inl e, s') \<Rightarrow> (Inl e, s') | (Inr x, s') \<Rightarrow> f x s')"

definition catchE :: "'a io \<Rightarrow> (error \<Rightarrow> 'a io) \<Rightarrow> 'a io" where
  "catchE m h s = (case m s of (Inl e, s') \<Rightarrow> h e s' | (Inr x, s') \<Rightarrow> (Inr x, s'))"

subsection \<open>Statements\<close>

text \<open>The next flag of the driver, and the flags left after it.\<close>

fun next_fault :: "bool list \<Rightarrow> bool" where
  "next_fault [] = False"
| "next_fault (b # bs) = b"

text \<open>
  One statement sent to the driver (\<open>database.run\<close>, \<open>database.get\<close>, \<open>database.all\<close>):
  it is rejected as a whole, or it reads and writes the tables in one step.
\<close>

definition sql :: "(tables \<Rightarrow> 'a \<times> tables) \<Rightarrow> 'a io" where
  "sql f s =
     (if next_fault (faults s) then (Inl StorageFailure, s\<lparr>faults := tl (faults s)\<rparr>)
      else (case f (store s) of (a, t) \<Rightarrow> (Inr a, s\<lparr>store := t, faults := tl (faults s)\<rparr>)))"

text \<open>\<open>BEGIN TRANSACTION\<close>, \<open>COMMIT\<close> and \<open>ROLLBACK\<close>.  SQLite refuses a \<open>BEGIN\<close> inside
  a transaction and a \<open>COMMIT\<close> or \<open>ROLLBACK\<close> outside one.\<close>

definition sql_begin :: "unit io" where
  "sql_begin s =
     (if next_fault (faults s) \<or> txn s \<noteq> None
      then (Inl StorageFailure, s\<lparr>faults := tl (faults s)\<rparr>)
      else (Inr (), s\<lparr>txn := Some (store s), faults := tl (faults s)\<rparr>))"

definition sql_commit :: "unit io" where
  "sql_commit s =
     (if next_fault (faults s) \<or> txn s = None
      then (Inl StorageFailure, s\<lparr>faults := tl (faults s)\<rparr>)
      else (Inr (), s\<lparr>txn := None, faults := tl (faults s)\<rparr>))"

definition sql_rollback :: "unit io" where
  "sql_rollback s =
     (if next_fault (faults s) then (Inl StorageFailure, s\<lparr>faults := tl (faults s)\<rparr>)
      else (case txn s of
              None \<Rightarrow> (Inl StorageFailure, s\<lparr>faults := tl (faults s)\<rparr>)
            | Some t \<Rightarrow> (Inr (), s\<lparr>store := t, txn := None, faults := tl (faults s)\<rparr>)))"

text \<open>\<open>SELECT * FROM usage_stats LIMIT 1\<close>\<close>

definition select_usage_stats :: "tables \<Rightarrow> usage_row option \<times> tables" where
  "select_usage_stats t = (case usage_stats t of [] \<Rightarrow> (None, t) | r # rs \<Rightarrow> (Some r, t))"

text \<open>
  The last identifier \<open>AUTOINCREMENT\<close> gave out in a table, \<open>0\<close> when the table has no
  entry in \<open>sqlite_sequence\<close>.
\<close>

definition sequence_of :: "string \<Rightarrow> tables \<Rightarrow> nat" where
  "sequence_of name t = (case map_of (sqlite_sequence t) name of None \<Rightarrow> 0 | Some n \<Rightarrow> n)"

text \<open>\<open>INSERT INTO usage_stats (total_tokens_used, total_limit) VALUES (0, ?)\<close>: the table
  is \<open>AUTOINCREMENT\<close> too, so the insertion moves its entry in \<open>sqlite_sequence\<close> on by
  one (every row of the table comes from this statement, so the entry is never behind
  the identifiers in the table).\<close>

definition insert_usage_stats :: "int \<Rightarrow> tables \<Rightarrow> unit \<times> tables" where
  "insert_usage_stats l t =
     (let i = Suc (sequence_of ''usage_stats'' t) in
      ((), t\<lparr>usage_stats := usage_stats t @ [\<lparr>total_tokens_used = 0, total_limit = l\<rparr>],
             sqlite_sequence :=
               (''usage_stats'', i) # filter (\<lambda>p. fst p \<noteq> ''usage_stats'') (sqlite_sequence t)\<rparr>))"

text \<open>\<open>UPDATE usage_stats SET total_tokens_used = total_tokens_used + ?\<close>: every row of
  the table, in one statement.\<close>

definition update_tokens_used_add :: "int \<Rightarrow> tables \<Rightarrow> unit \<times> tables" where
  "update_tokens_used_add n t =
     ((), t\<lparr>usage_stats :=
              map (\<lambda>r. r\<lparr>total_tokens_used := total_tokens_used r + n\<rparr>) (usage_stats t)\<rparr>)"

text \<open>\<open>UPDATE usage_stats SET total_tokens_used = 0\<close>\<close>

definition update_tokens_used_zero :: "tables \<Rightarrow> unit \<times> tables" where
  "update_tokens_used_zero t =
     ((), t\<lparr>usage_stats := map (\<lambda>r. r\<lparr>total_tokens_used := 0\<rparr>) (usage_stats t)\<rparr>)"

text \<open>\<open>UPDATE usage_stats SET total_limit = ?\<close>\<close>

definition update_total_limit :: "int \<Rightarrow> tables \<Rightarrow> unit \<times> tables" where
  "update_total_limit l t =
     ((), t\<lparr>usage_stats := map (\<lambda>r. r\<lparr>total_limit := l\<rparr>) (usage_stats t)\<rparr>)"

text \<open>
  The identifier \<open>AUTOINCREMENT\<close> gives the next row of \<open>chat_history\<close>: one more than
  the larger of the table's entry in \<open>sqlite_sequence\<close> and the largest identifier in
  the table.
\<close>

definition next_chat_id :: "tables \<Rightarrow> nat" where
  "next_chat_id t =
     Suc (max (sequence_of ''chat_history'' t) (fold max (map row_id (chat_history t)) 0))"

text \<open>\<open>INSERT INTO chat_history (...) VALUES (?, ?, ?, ?, ?, ?, ?)\<close>, the timestamp being
  the column's default; the result is \<open>lastID\<close>.\<close>

definition insert_chat_history ::
  "nat \<Rightarrow> string \<Rightarrow> string \<Rightarrow> int \<Rightarrow> int option \<Rightarrow> string \<Rightarrow> rat \<Rightarrow> int \<Rightarrow> tables \<Rightarrow> nat \<times> tables"
where
  "insert_chat_history now ui resp cnt tik mdl temp maxt t =
     (let i = next_chat_id t in
      (i, t\<lparr>chat_history := chat_history t @
               [\<lparr>row_id = i, user_input = ui, response = resp, gemini_token_count = cnt,
                 tiktoken_estimate = tik, model = mdl, temperature = temp,
                 max_tokens = maxt, timestamp = now\<rparr>],
             sqlite_sequence :=
               (''chat_history'', i) # filter (\<lambda>p. fst p \<noteq> ''chat_history'') (sqlite_sequence t)\<rparr>))"

text \<open>\<open>SELECT ch.* FROM chat_history ch ORDER BY ch.timestamp DESC LIMIT ?\<close>: a negative
  limit is no limit in SQLite.  Rows of one timestamp keep their table order.\<close>

definition select_recent_chats :: "int \<Rightarrow> tables \<Rightarrow> chat_row list \<times> tables" where
  "select_recent_chats n t =
     (let sorted_rows = rev (sort_key timestamp (rev (chat_history t))) in
      (if n < 0 then sorted_rows else take (nat n) sorted_rows, t))"

text \<open>\<open>DELETE FROM token_comparisons\<close>, \<open>DELETE FROM chat_history\<close> and
  \<open>DELETE FROM sqlite_sequence WHERE name IN (...)\<close>\<close>

definition delete_token_comparisons :: "tables \<Rightarrow> unit \<times> tables" where
  "delete_token_comparisons t = ((), t\<lparr>token_comparisons := []\<rparr>)"

definition delete_chat_history :: "tables \<Rightarrow> unit \<times> tables" where
  "delete_chat_history t = ((), t\<lparr>chat_history := []\<rparr>)"

definition delete_sequences :: "string list \<Rightarrow> tables \<Rightarrow> unit \<times> tables" where
  "delete_sequences names t =
     ((), t\<lparr>sqlite_sequence := filter (\<lambda>p. fst p \<notin> set names) (sqlite_sequence t)\<rparr>)"

section \<open>\<open>tokenUtils.js\<close>\<close>

text \<open>\<open>simpleTokenEstimate\<close>: \<open>0\<close> for a falsy text (the empty string), otherwise
  \<open>Math.ceil(text.length / 4)\<close>.\<close>

definition simpleTokenEstimate :: "string \<Rightarrow> int" where
  "simpleTokenEstimate text =
     (if text = [] then 0 else \<lceil>of_nat (length text) / (4 :: rat)\<rceil>)"

definition estimateCombinedTokens :: "string \<Rightarrow> string \<Rightarrow> int" where
  "estimateCombinedTokens input output =
     (let inputTokens = simpleTokenEstimate input;
          outputTokens = simpleTokenEstimate output;
          totalTokens = inputTokens + outputTokens
      in totalTokens)"

section \<open>\<open>db.js\<close>\<close>

text \<open>
  \<open>initializeDatabase\<close>: open the file (which sets \<open>db\<close>), create the tables if they do
  not exist (they are modelled as always there, empty when new), and insert the usage
  row \<open>0 / 10000\<close> when the table has none.  The \<open>try ... catch\<close> blocks of \<open>db.js\<close> that
  only log and throw the error again are not written out.
\<close>

definition db_open :: "unit io" where
  "db_open s =
     (if next_fault (faults s) then (Inl StorageFailure, s\<lparr>faults := tl (faults s)\<rparr>)
      else (Inr (), s\<lparr>handle := True, faults := tl (faults s)\<rparr>))"

definition initializeDatabase :: "unit io" where
  "initializeDatabase =
     bindE db_open (\<lambda>_.
     bindE (sql (\<lambda>t. ((), t))) (\<lambda>_.
     bindE (sql select_usage_stats) (\<lambda>stats.
     let initialLimit = 10000 in
     (case stats of
        None \<Rightarrow> sql (insert_usage_stats initialLimit)
      | Some r \<Rightarrow> returnE ()))))"

definition getDb :: "unit io" where
  "getDb s = (if \<not> handle s then initializeDatabase s else returnE () s)"

record chat_options =
  opt_temperature :: "rat option"
  opt_maxTokens :: "jsnum option"

record add_result =
  chatId :: nat
  tokensAdded :: int

text \<open>\<open>options?.temperature || 0.7\<close>\<close>

definition temperature_or :: "rat option \<Rightarrow> rat \<Rightarrow> rat" where
  "temperature_or v d = (case v of None \<Rightarrow> d | Some x \<Rightarrow> if x = 0 then d else x)"

definition addChatEntry ::
  "string \<Rightarrow> string \<Rightarrow> jsnum option \<Rightarrow> string \<Rightarrow> chat_options \<Rightarrow> add_result io"
where
  "addChatEntry userInput resp geminiTokenCount mdl options =
     bindE getDb (\<lambda>_.
     let tokenCount = js_or geminiTokenCount (simpleTokenEstimate (userInput @ resp)) in
     bindE (\<lambda>s. sql (insert_chat_history (clock s) userInput resp tokenCount None mdl
                        (temperature_or (opt_temperature options) (7 / 10))
                        (js_or (opt_maxTokens options) 1024)) s) (\<lambda>lastID.
     bindE (sql (update_tokens_used_add tokenCount)) (\<lambda>_.
     returnE \<lparr>chatId = lastID, tokensAdded = tokenCount\<rparr>)))"

definition getTokenUsage :: "usage_row io" where
  "getTokenUsage =
     bindE getDb (\<lambda>_.
     bindE (sql select_usage_stats) (\<lambda>stats.
     returnE (case stats of
                None \<Rightarrow> \<lparr>total_tokens_used = 0, total_limit = 10000\<rparr>
              | Some r \<Rightarrow> r)))"

definition isTokenLimitExceeded :: "bool io" where
  "isTokenLimitExceeded =
     bindE getTokenUsage (\<lambda>stats.
     returnE (total_tokens_used stats \<ge> total_limit stats))"

definition getRecentChats :: "int \<Rightarrow> chat_row list io" where
  "getRecentChats n =
     bindE getDb (\<lambda>_.
     bindE (sql (select_recent_chats n)) (\<lambda>chats.
     returnE chats))"

text \<open>The number a limit or an extension amount carries once \<open>isNaN\<close> has been ruled
  out.\<close>

fun num_of :: "jsnum \<Rightarrow> int" where
  "num_of (Num n) = n"
| "num_of NaN = 0"

definition updateTokenLimit :: "jsnum \<Rightarrow> usage_row io" where
  "updateTokenLimit newLimit =
     (if isNaN newLimit \<or> js_le newLimit (Num 0) then throwE InvalidTokenLimit
      else
        bindE getDb (\<lambda>_.
        bindE (sql (update_total_limit (num_of newLimit))) (\<lambda>_.
        getTokenUsage)))"

record extend_result =
  success :: bool
  previousLimit :: int
  newLimit :: int
  amountAdded :: int
  currentUsage :: int

definition extendTokenLimit :: "jsnum \<Rightarrow> jsnum \<Rightarrow> extend_result io" where
  "extendTokenLimit amountToAdd maxAllowedExtension =
     (if isNaN amountToAdd \<or> js_le amountToAdd (Num 0) then throwE InvalidExtensionAmount
      else if js_gt amountToAdd maxAllowedExtension
      then throwE (ExtensionExceedsMaximum maxAllowedExtension)
      else
        bindE getDb (\<lambda>_.
        bindE (sql select_usage_stats) (\<lambda>currentStats.
        (case currentStats of
           None \<Rightarrow> throwE UsageStatsNotFound
         | Some cur \<Rightarrow>
             let newLimit = js_plus (total_limit cur) (num_of amountToAdd) in
             bindE (sql (update_total_limit newLimit)) (\<lambda>_.
             bindE getTokenUsage (\<lambda>updatedStats.
             returnE \<lparr>success = True,
                      previousLimit = total_limit cur,
                      newLimit = total_limit updatedStats,
                      amountAdded = num_of amountToAdd,
                      currentUsage = total_tokens_used updatedStats\<rparr>))))))"

definition clearDatabase :: "bool io" where
  "clearDatabase =
     catchE
       (bindE getDb (\<lambda>_.
        bindE sql_begin (\<lambda>_.
        bindE (sql delete_token_comparisons) (\<lambda>_.
        bindE (sql delete_chat_history) (\<lambda>_.
        bindE (sql update_tokens_used_zero) (\<lambda>_.
        bindE (sql (delete_sequences [''chat_history'', ''token_comparisons''])) (\<lambda>_.
        bindE sql_commit (\<lambda>_.
        returnE True))))))))
       (\<lambda>error.
        bindE (catchE (bindE getDb (\<lambda>_. sql_rollback)) (\<lambda>rollbackError. returnE ())) (\<lambda>_.
        throwE error))"

section \<open>\<open>extractGeminiTokenCount\<close> of \<open>tokenUtils.js\<close>\<close>

text \<open>
  The response of the Gemini API, as far as the function reads it.  A count that the
  response does not carry is \<open>None\<close> (\<open>undefined\<close>), and \<open>undefined + n\<close> is \<open>NaN\<close>.
\<close>

record usage_metadata =
  totalTokenCount :: "int option"
  promptTokenCount :: "int option"
  candidatesTokenCount :: "int option"

record candidate =
  candidate_usageMetadata :: "usage_metadata option"

record api_response =
  usageMetadata :: "usage_metadata option"
  candidates :: "candidate list option"
  response_usageMetadata :: "usage_metadata option option"

text \<open>\<open>m.totalTokenCount || (m.promptTokenCount + m.candidatesTokenCount)\<close>\<close>

definition js_add :: "int option \<Rightarrow> int option \<Rightarrow> jsnum" where
  "js_add a b = (case (a, b) of (Some x, Some y) \<Rightarrow> Num (x + y) | _ \<Rightarrow> NaN)"

definition metadata_count :: "usage_metadata \<Rightarrow> jsnum" where
  "metadata_count m =
     (case totalTokenCount m of
        Some n \<Rightarrow>
          if n \<noteq> 0 then Num n else js_add (promptTokenCount m) (candidatesTokenCount m)
      | None \<Rightarrow> js_add (promptTokenCount m) (candidatesTokenCount m))"

definition extractGeminiTokenCount :: "api_response option \<Rightarrow> jsnum option" where
  "extractGeminiTokenCount apiResponse =
     (case apiResponse of
        None \<Rightarrow> None
      | Some r \<Rightarrow>
          let tokenCount = None;
              tokenCount = (case usageMetadata r of
                              Some m \<Rightarrow> Some (metadata_count m)
                            | None \<Rightarrow> tokenCount);
              tokenCount = (if \<not> truthy tokenCount then
                              (case candidates r of
                                 Some (c # cs) \<Rightarrow>
                                   (case candidate_usageMetadata c of
                                      Some m \<Rightarrow> Some (metadata_count m)
                                    | None \<Rightarrow> tokenCount)
                               | _ \<Rightarrow> tokenCount)
                            else tokenCount);
              tokenCount = (if \<not> truthy tokenCount then
                              (case response_usageMetadata r of
                                 Some (Some m) \<Rightarrow> Some (metadata_count m)
                               | _ \<Rightarrow> tokenCount)
                            else tokenCount)
          in tokenCount)"

section \<open>\<open>config.js\<close>\<close>

definition defaultTokenLimit :: int where
  "defaultTokenLimit = 100000"

definition maxExtensionAmount :: int where
  "maxExtensionAmount = 20000"

section \<open>\<open>wsBroadcast.js\<close>\<close>

text \<open>\<open>client.send(message)\<close>: it throws, or the message is on the wire.\<close>

definition ws_send :: "websocket \<Rightarrow> message \<Rightarrow> unit io" where
  "ws_send ws msg s =
     (if send_throws ws then (Inl TransportFailure, s)
      else (Inr (), s\<lparr>wire := wire s @ [(ws_id ws, msg)]\<rparr>))"

text \<open>A function of the source that is not \<open>async\<close> and does not throw, used in a chain
  of those that may.\<close>

definition liftE :: "(server \<Rightarrow> 'a \<times> server) \<Rightarrow> 'a io" where
  "liftE f s = (case f s of (a, s') \<Rightarrow> (Inr a, s'))"

text \<open>
  \<open>broadcastToAll\<close>: the body of the \<open>forEach\<close> for one client, on the two counters and
  the state, then the whole function.  \<open>cleanupClosedConnections\<close> collects the closed
  and closing sockets first and deletes them from the \<open>Map\<close> after.
\<close>

definition map_delete :: "websocket \<Rightarrow> server \<Rightarrow> server" where
  "map_delete client s =
     s\<lparr>wsClients := filter (\<lambda>entry. ws_id (fst entry) \<noteq> ws_id client) (wsClients s)\<rparr>"

definition cleanupClosedConnections :: "server \<Rightarrow> nat \<times> server" where
  "cleanupClosedConnections s =
     (let initialSize = length (wsClients s);
          toDelete = map fst (filter (\<lambda>entry. readyState (fst entry) = CLOSED \<or>
                                              readyState (fst entry) = CLOSING) (wsClients s));
          s' = fold map_delete toDelete s;
          removedCount = initialSize - length (wsClients s')
      in (removedCount, s'))"

definition broadcast_each ::
  "message \<Rightarrow> websocket \<times> client_info \<Rightarrow> nat \<times> nat \<times> server \<Rightarrow> nat \<times> nat \<times> server"
where
  "broadcast_each msg entry acc =
     (case acc of (activeSent, closedClients, s) \<Rightarrow>
        let client = fst entry in
        if readyState client = OPEN then
          (case ws_send client msg s of
             (Inr u, s') \<Rightarrow> (activeSent + 1, closedClients, s')
           | (Inl e, s') \<Rightarrow> (activeSent, closedClients, s'))
        else if readyState client = CLOSED \<or> readyState client = CLOSING then
          (activeSent, closedClients + 1, s)
        else (activeSent, closedClients, s))"

record broadcast_result =
  sent :: nat
  closed :: nat

definition broadcastToAll :: "message \<Rightarrow> server \<Rightarrow> broadcast_result \<times> server" where
  "broadcastToAll msg s =
     (case fold (broadcast_each msg) (wsClients s) (0, 0, s) of
        (activeSent, closedClients, s') \<Rightarrow>
          (\<lparr>sent = activeSent, closed = closedClients\<rparr>,
           if closedClients > 0 then snd (cleanupClosedConnections s') else s'))"

definition broadcast_other ::
  "websocket \<Rightarrow> message \<Rightarrow> websocket \<times> client_info \<Rightarrow> nat \<times> server \<Rightarrow> nat \<times> server"
where
  "broadcast_other excludeWs msg entry acc =
     (case acc of (n, s) \<Rightarrow>
        let client = fst entry in
        if ws_id client \<noteq> ws_id excludeWs \<and> readyState client = OPEN then
          (case ws_send client msg s of
             (Inr u, s') \<Rightarrow> (n + 1, s')
           | (Inl e, s') \<Rightarrow> (n, s'))
        else (n, s))"

definition broadcastToOthers :: "websocket \<Rightarrow> message \<Rightarrow> server \<Rightarrow> nat \<times> server" where
  "broadcastToOthers excludeWs msg s = fold (broadcast_other excludeWs msg) (wsClients s) (0, s)"

definition broadcastUpdate :: "unit io" where
  "broadcastUpdate s =
     (let clientCount = length (wsClients s) in
      if clientCount = 0 then (Inr (), s)
      else
        catchE
          (bindE getTokenUsage (\<lambda>usage.
           bindE (getRecentChats 20) (\<lambda>chats.
           let updateData =
                 Update \<lparr>totalTokensUsed = total_tokens_used usage,
                         limit = total_limit usage,
                         remaining = max 0 (total_limit usage - total_tokens_used usage),
                         exceeded = (total_tokens_used usage \<ge> total_limit usage)\<rparr>
                   (Some chats) System in
           bindE (liftE (broadcastToAll updateData)) (\<lambda>_.
           returnE ()))))
          (\<lambda>error. returnE ()) s)"

section \<open>\<open>wsHandlers.js\<close>\<close>

text \<open>
  An incoming message whose fields can be read (an object, or any other JSON value but
  \<open>null\<close>): its \<open>type\<close> (\<open>None\<close> when the field is missing or not a string) and what
  \<open>parseInt\<close> makes of its \<open>amount\<close>.  What \<open>JSON.parse\<close> hands to \<open>handleMessage\<close> is
  such a message or \<open>null\<close>: an \<open>incoming option\<close>.
\<close>

record incoming =
  msg_type :: "string option"
  amount :: jsnum

definition handleRequestUpdate :: "websocket \<Rightarrow> string \<Rightarrow> string \<Rightarrow> unit io" where
  "handleRequestUpdate ws clientIp clientId =
     catchE
       (bindE getTokenUsage (\<lambda>usage.
        bindE (getRecentChats 20) (\<lambda>chats.
        ws_send ws
          (Update \<lparr>totalTokensUsed = total_tokens_used usage,
                   limit = total_limit usage,
                   remaining = max 0 (total_limit usage - total_tokens_used usage),
                   exceeded = (total_tokens_used usage \<ge> total_limit usage)\<rparr>
             (Some chats) (RequestedBy clientId)))))
       (\<lambda>error. ws_send ws (ErrorMessage ''Failed to retrieve update data'' (Some error)))"

text \<open>\<open>SELECT total_limit FROM usage_stats LIMIT 1\<close>\<close>

definition select_total_limit :: "tables \<Rightarrow> int option \<times> tables" where
  "select_total_limit t =
     (case usage_stats t of [] \<Rightarrow> (None, t) | r # rs \<Rightarrow> (Some (total_limit r), t))"

definition handleExtendLimit :: "websocket \<Rightarrow> incoming \<Rightarrow> string \<Rightarrow> string \<Rightarrow> unit io" where
  "handleExtendLimit ws message clientIp clientId =
     (let amountToExtend = amount message in
      if \<not> truthy (Some amountToExtend) \<or> isNaN amountToExtend \<or> js_le amountToExtend (Num 0)
      then ws_send ws (ExtendLimitResponseFailure InvalidAmountProvided clientId)
      else if js_gt amountToExtend (Num maxExtensionAmount)
      then ws_send ws (ExtendLimitResponseFailure (AmountExceedsMaximum maxExtensionAmount) clientId)
      else
        catchE
          (bindE getDb (\<lambda>_.
           bindE (sql select_total_limit) (\<lambda>currentStats.
           let currentLimit = (case currentStats of Some l \<Rightarrow> l | None \<Rightarrow> defaultTokenLimit);
               newLimit = js_plus currentLimit (num_of amountToExtend) in
           bindE (sql (update_total_limit newLimit)) (\<lambda>_.
           bindE getTokenUsage (\<lambda>usage.
           bindE (ws_send ws (ExtendLimitResponseSuccess (num_of amountToExtend) currentLimit
                                (total_limit usage) (total_tokens_used usage) clientId)) (\<lambda>_.
           bindE (liftE (broadcastToOthers ws
                    (Update \<lparr>totalTokensUsed = total_tokens_used usage,
                             limit = total_limit usage,
                             remaining = max 0 (total_limit usage - total_tokens_used usage),
                             exceeded = (total_tokens_used usage \<ge> total_limit usage)\<rparr>
                       None (LimitExtendedBy clientId (num_of amountToExtend))))) (\<lambda>_.
           returnE ())))))))
          (\<lambda>error. ws_send ws (ExtendLimitResponseFailure (ExtendFailed error) clientId)))"

definition handleClearDatabase :: "websocket \<Rightarrow> string \<Rightarrow> string \<Rightarrow> unit io" where
  "handleClearDatabase ws clientIp clientId =
     catchE
       (bindE getDb (\<lambda>_.
        bindE sql_begin (\<lambda>_.
        bindE (sql delete_chat_history) (\<lambda>_.
        bindE (sql update_tokens_used_zero) (\<lambda>_.
        bindE (sql (delete_sequences [''chat_history''])) (\<lambda>_.
        bindE sql_commit (\<lambda>_.
        bindE getTokenUsage (\<lambda>usage.
        bindE (ws_send ws
                 (ClearDatabaseResponseSuccess
                    \<lparr>totalTokensUsed = 0, limit = total_limit usage,
                     remaining = total_limit usage, exceeded = False\<rparr> clientId)) (\<lambda>_.
        bindE (liftE (broadcastToOthers ws
                 (Update \<lparr>totalTokensUsed = 0, limit = total_limit usage,
                          remaining = total_limit usage, exceeded = False\<rparr>
                    (Some []) (DatabaseClearedBy clientId)))) (\<lambda>_.
        returnE ()))))))))))
       (\<lambda>error.
        bindE (catchE (bindE getDb (\<lambda>_. sql_rollback)) (\<lambda>rollbackError. returnE ())) (\<lambda>_.
        ws_send ws (ClearDatabaseResponseFailure error clientId)))"

definition handlePing :: "websocket \<Rightarrow> string \<Rightarrow> unit io" where
  "handlePing ws clientId = ws_send ws (Pong clientId)"

text \<open>
  \<open>listConnectedClients\<close> of \<open>wsServer.js\<close>, and \<open>handleGetClients\<close>, which loads it with
  \<open>require('./wsServer.js')\<close> at the time of the call.  The files are ES modules, where
  \<open>require\<close> is not defined: the call throws, and the function goes on in its \<open>catch\<close>.
\<close>

definition require_wsServer :: "unit io" where
  "require_wsServer = throwE ReferenceError"

definition listConnectedClients :: "server \<Rightarrow> (client_info \<times> ready_state) list" where
  "listConnectedClients s = map (\<lambda>entry. (snd entry, readyState (fst entry))) (wsClients s)"

definition handleGetClients :: "websocket \<Rightarrow> string \<Rightarrow> unit io" where
  "handleGetClients ws clientId =
     catchE
       (bindE require_wsServer (\<lambda>_.
        (\<lambda>s. let clients = listConnectedClients s;
                 clientList = map (\<lambda>client. (client_id (fst client), connectedAt (fst client),
                                              lastActivity (fst client), snd client = OPEN)) clients
             in ws_send ws (ClientList clientList (length clientList) clientId) s)))
       (\<lambda>error. ws_send ws (ErrorMessage ''Failed to retrieve client list'' (Some error)))"

text \<open>
  \<open>handleMessage\<close>: its first line reads \<open>message.type\<close> for the log, which throws on
  \<open>null\<close>; then the \<open>switch\<close>.
\<close>

definition handleMessage ::
  "websocket \<Rightarrow> incoming option \<Rightarrow> string \<Rightarrow> string \<Rightarrow> unit io"
where
  "handleMessage ws message clientIp clientId =
     (case message of
        None \<Rightarrow> throwE TypeError
      | Some m \<Rightarrow>
          if msg_type m = Some ''requestUpdate'' then handleRequestUpdate ws clientIp clientId
          else if msg_type m = Some ''extendLimit''
          then handleExtendLimit ws m clientIp clientId
          else if msg_type m = Some ''clearDatabase''
          then handleClearDatabase ws clientIp clientId
          else if msg_type m = Some ''ping'' then handlePing ws clientId
          else if msg_type m = Some ''getClients'' then handleGetClients ws clientId
          else ws_send ws (ErrorMessage ''Unknown message type'' None))"

section \<open>The \<open>message\<close> listener of \<open>wsServer.js\<close>\<close>

text \<open>
  What arrives on a socket: a text that \<open>JSON.parse\<close> refuses, or one it turns into a
  message or \<open>null\<close>.  The listener notes the time of the activity, parses, and calls
  \<open>handleMessage\<close> without \<open>await\<close>: the call returns a promise at once, so the \<open>catch\<close> of
  the listener only ever sees the error of \<open>JSON.parse\<close>, and an error thrown inside
  \<open>handleMessage\<close> is seen by nobody.  A failure of the \<open>send\<close> in the \<open>catch\<close> is caught
  and logged.
\<close>

datatype frame = Unparsable | Parsed "incoming option"

definition touch :: "websocket \<Rightarrow> server \<Rightarrow> server" where
  "touch ws s =
     s\<lparr>wsClients :=
         map (\<lambda>entry. if ws_id (fst entry) = ws_id ws
                       then (fst entry, (snd entry)\<lparr>lastActivity := clock s\<rparr>)
                       else entry) (wsClients s)\<rparr>"

definition on_message :: "websocket \<Rightarrow> frame \<Rightarrow> string \<Rightarrow> string \<Rightarrow> server \<Rightarrow> server" where
  "on_message ws data clientIp clientId s =
     (let s1 = touch ws s in
      case data of
        Unparsable \<Rightarrow>
          snd (ws_send ws (ErrorMessage ''Failed to process message'' (Some SyntaxError)) s1)
      | Parsed message \<Rightarrow> snd (handleMessage ws message clientIp clientId s1))"

section \<open>The \<open>/api/usage\<close> route of \<open>apiRoutes.js\<close>\<close>

datatype usage_response =
    UsageExceeded usage_payload
  | UsageReport usage_payload
  | UsageError error

definition api_usage :: "usage_response io" where
  "api_usage =
     catchE
       (bindE getTokenUsage (\<lambda>usage.
        if total_tokens_used usage \<ge> total_limit usage then
          returnE (UsageExceeded \<lparr>totalTokensUsed = total_tokens_used usage,
                                  limit = total_limit usage,
                                  remaining = 0,
                                  exceeded = True\<rparr>)
        else
          returnE (UsageReport \<lparr>totalTokensUsed = total_tokens_used usage,
                                limit = total_limit usage,
                                remaining = max 0 (total_limit usage - total_tokens_used usage),
                                exceeded = False\<rparr>)))
       (\<lambda>error. returnE (UsageError error))"

section \<open>\<open>streamService.js\<close>\<close>

text \<open>
  The body of the request, and what the Gemini client does with it: the texts of the
  chunks it yields, in order, and then either the final response or a failure (one
  thrown before the first chunk yields none).  The reader of the stream is taken to
  stay connected, so \<open>controller.enqueue\<close> does not throw.
\<close>

record request_body =
  body_message :: string
  body_model :: "string option"
  body_options :: "chat_options option"
  body_format :: "string option"

datatype generation =
    GenerationFailed "string list"
  | Generated "string list" "api_response option"

record stream_usage =
  su_geminiTokenCount :: "jsnum option"
  su_totalTokensUsed :: int
  su_limit :: int
  su_remaining :: int
  su_tokensAdded :: int
  su_limitExceeded :: bool

datatype stream_item =
    JsonChunk string
  | RawText string
  | JsonDone stream_usage
  | JsonError error

datatype stream_end = StreamClosed | StreamErrored error

record stream_outcome =
  enqueued :: "stream_item list"
  ended :: stream_end

datatype http_result = BadRequest | StreamResponse stream_outcome

definition defaultModel :: string where
  "defaultModel = ''gemini-1.5-flash''"

text \<open>\<open>body.model || config.defaultModel\<close>, \<open>body.options || {}\<close> and
  \<open>(body.format || 'json') === 'json'\<close>\<close>

definition modelName_of :: "request_body \<Rightarrow> string" where
  "modelName_of body =
     (case body_model body of None \<Rightarrow> defaultModel | Some m \<Rightarrow> if m = [] then defaultModel else m)"

definition options_of :: "request_body \<Rightarrow> chat_options" where
  "options_of body =
     (case body_options body of
        None \<Rightarrow> \<lparr>opt_temperature = None, opt_maxTokens = None\<rparr>
      | Some opts \<Rightarrow> opts)"

definition format_is_json :: "request_body \<Rightarrow> bool" where
  "format_is_json body =
     (case body_format body of None \<Rightarrow> True | Some f \<Rightarrow> f = [] \<or> f = ''json'')"

text \<open>One turn of \<open>for await (const chunk of result.stream)\<close>, on \<open>fullResponse\<close> and what
  has been enqueued.\<close>

definition stream_chunk ::
  "bool \<Rightarrow> string \<Rightarrow> string \<times> stream_item list \<Rightarrow> string \<times> stream_item list"
where
  "stream_chunk json text acc =
     (case acc of (fullResponse, out) \<Rightarrow>
        if text \<noteq> [] then
          (fullResponse @ text, out @ [if json then JsonChunk text else RawText text])
        else (fullResponse, out))"

text \<open>From \<open>await result.response\<close> to the completion message: the items still to
  enqueue.\<close>

definition stream_commit ::
  "bool \<Rightarrow> string \<Rightarrow> string \<Rightarrow> chat_options \<Rightarrow> string \<Rightarrow> api_response option \<Rightarrow>
   stream_item list io"
where
  "stream_commit json userMessage modelName options fullResponse finalResponse =
     (let geminiTokenCount = extractGeminiTokenCount finalResponse in
      bindE (addChatEntry userMessage fullResponse geminiTokenCount modelName options) (\<lambda>dbEntry.
      bindE getTokenUsage (\<lambda>usage.
      let isOverLimit = (total_tokens_used usage \<ge> total_limit usage) in
      returnE (if json then
                 [JsonDone \<lparr>su_geminiTokenCount = geminiTokenCount,
                            su_totalTokensUsed = total_tokens_used usage,
                            su_limit = total_limit usage,
                            su_remaining = max 0 (total_limit usage - total_tokens_used usage),
                            su_tokensAdded = tokensAdded dbEntry,
                            su_limitExceeded = isOverLimit\<rparr>]
               else []))))"

definition handleStreamingChat :: "request_body \<Rightarrow> generation \<Rightarrow> server \<Rightarrow> http_result \<times> server"
where
  "handleStreamingChat body gen s =
     (let userMessage = body_message body;
          modelName = modelName_of body;
          options = options_of body;
          json = format_is_json body in
      if userMessage = [] then (BadRequest, s)
      else
        (case gen of
           GenerationFailed chunks \<Rightarrow>
             (case fold (stream_chunk json) chunks ([], []) of
                (fullResponse, out) \<Rightarrow>
                  (StreamResponse
                     \<lparr>enqueued = out @ (if json then [JsonError UpstreamFailure] else []),
                      ended = StreamErrored UpstreamFailure\<rparr>, s))
         | Generated chunks finalResponse \<Rightarrow>
             (case fold (stream_chunk json) chunks ([], []) of
                (fullResponse, out) \<Rightarrow>
                  (case stream_commit json userMessage modelName options fullResponse
                          finalResponse s of
                     (Inl error, s') \<Rightarrow>
                       (StreamResponse
                          \<lparr>enqueued = out @ (if json then [JsonError error] else []),
                           ended = StreamErrored error\<rparr>, s')
                   | (Inr done, s') \<Rightarrow>
                       (StreamResponse \<lparr>enqueued = out @ done, ended = StreamClosed\<rparr>,
                        snd (broadcastUpdate s'))))))"

section \<open>Calls in flight together\<close>

text \<open>
  An \<open>async\<close> function gives way at each \<open>await\<close>, and another call may run until its
  own next \<open>await\<close>.  A call of \<open>extendTokenLimit\<close>, \<open>addChatEntry\<close> or \<open>clearDatabase\<close> is
  shown here at the places where it can be waiting: not started, between two statements
  (with the local variables it holds), or returned; for \<open>clearDatabase\<close> also in its
  \<open>catch\<close>, with the error it caught, before the \<open>ROLLBACK\<close>.  \<open>step\<close> runs a call up to
  and including its next statement.
\<close>

datatype call =
    ExtendTokenLimit jsnum jsnum
  | Extend_selected usage_row jsnum
  | Extend_updated usage_row jsnum
  | Extend_returned "error + extend_result"
  | AddChatEntry string string "jsnum option" string chat_options
  | Add_inserted nat int
  | Add_returned "error + add_result"
  | ClearDatabase
  | Clear_begun
  | Clear_comparisons_deleted
  | Clear_history_deleted
  | Clear_usage_reset
  | Clear_sequences_deleted
  | Clear_failed error
  | Clear_returned "error + bool"

fun step :: "call \<Rightarrow> server \<Rightarrow> call \<times> server" where
  "step (ExtendTokenLimit amountToAdd maxAllowedExtension) s =
     (if isNaN amountToAdd \<or> js_le amountToAdd (Num 0)
      then (Extend_returned (Inl InvalidExtensionAmount), s)
      else if js_gt amountToAdd maxAllowedExtension
      then (Extend_returned (Inl (ExtensionExceedsMaximum maxAllowedExtension)), s)
      else
        (case bindE getDb (\<lambda>_. sql select_usage_stats) s of
           (Inl e, s') \<Rightarrow> (Extend_returned (Inl e), s')
         | (Inr None, s') \<Rightarrow> (Extend_returned (Inl UsageStatsNotFound), s')
         | (Inr (Some cur), s') \<Rightarrow> (Extend_selected cur amountToAdd, s')))"
| "step (Extend_selected cur amountToAdd) s =
     (let newLimit = js_plus (total_limit cur) (num_of amountToAdd) in
      case sql (update_total_limit newLimit) s of
        (Inl e, s') \<Rightarrow> (Extend_returned (Inl e), s')
      | (Inr u, s') \<Rightarrow> (Extend_updated cur amountToAdd, s'))"
| "step (Extend_updated cur amountToAdd) s =
     (case getTokenUsage s of
        (Inl e, s') \<Rightarrow> (Extend_returned (Inl e), s')
      | (Inr updatedStats, s') \<Rightarrow>
          (Extend_returned (Inr \<lparr>success = True,
                                 previousLimit = total_limit cur,
                                 newLimit = total_limit updatedStats,
                                 amountAdded = num_of amountToAdd,
                                 currentUsage = total_tokens_used updatedStats\<rparr>), s'))"
| "step (AddChatEntry userInput resp geminiTokenCount mdl options) s =
     (let tokenCount = js_or geminiTokenCount (simpleTokenEstimate (userInput @ resp)) in
      case bindE getDb (\<lambda>_. \<lambda>s. sql (insert_chat_history (clock s) userInput resp tokenCount
                                        None mdl
                                        (temperature_or (opt_temperature options) (7 / 10))
                                        (js_or (opt_maxTokens options) 1024)) s) s of
        (Inl e, s') \<Rightarrow> (Add_returned (Inl e), s')
      | (Inr lastID, s') \<Rightarrow> (Add_inserted lastID tokenCount, s'))"
| "step (Add_inserted lastID tokenCount) s =
     (case sql (update_tokens_used_add tokenCount) s of
        (Inl e, s') \<Rightarrow> (Add_returned (Inl e), s')
      | (Inr u, s') \<Rightarrow> (Add_returned (Inr \<lparr>chatId = lastID, tokensAdded = tokenCount\<rparr>), s'))"
| "step ClearDatabase s =
     (case bindE getDb (\<lambda>_. sql_begin) s of
        (Inl e, s') \<Rightarrow> (Clear_failed e, s')
      | (Inr u, s') \<Rightarrow> (Clear_begun, s'))"
| "step Clear_begun s =
     (case sql delete_token_comparisons s of
        (Inl e, s') \<Rightarrow> (Clear_failed e, s')
      | (Inr u, s') \<Rightarrow> (Clear_comparisons_deleted, s'))"
| "step Clear_comparisons_deleted s =
     (case sql delete_chat_history s of
        (Inl e, s') \<Rightarrow> (Clear_failed e, s')
      | (Inr u, s') \<Rightarrow> (Clear_history_deleted, s'))"
| "step Clear_history_deleted s =
     (case sql update_tokens_used_zero s of
        (Inl e, s') \<Rightarrow> (Clear_failed e, s')
      | (Inr u, s') \<Rightarrow> (Clear_usage_reset, s'))"
| "step Clear_usage_reset s =
     (case sql (delete_sequences [''chat_history'', ''token_comparisons'']) s of
        (Inl e, s') \<Rightarrow> (Clear_failed e, s')
      | (Inr u, s') \<Rightarrow> (Clear_sequences_deleted, s'))"
| "step Clear_sequences_deleted s =
     (case sql_commit s of
        (Inl e, s') \<Rightarrow> (Clear_failed e, s')
      | (Inr u, s') \<Rightarrow> (Clear_returned (Inr True), s'))"
| "step (Clear_failed error) s =
     (case catchE (bindE getDb (\<lambda>_. sql_rollback)) (\<lambda>rollbackError. returnE ()) s of
        (r, s') \<Rightarrow> (Clear_returned (Inl error), s'))"
| "step (Extend_returned r) s = (Extend_returned r, s)"
| "step (Add_returned r) s = (Add_returned r, s)"
| "step (Clear_returned r) s = (Clear_returned r, s)"

text \<open>
  A schedule says which call runs next, by its place in the list of calls; a place
  outside the list is passed over.  \<open>run\<close> follows a schedule.
\<close>

fun run :: "nat list \<Rightarrow> call list \<Rightarrow> server \<Rightarrow> call list \<times> server" where
  "run [] calls s = (calls, s)"
| "run (i # sched) calls s =
     (if i < length calls
      then (case step (calls ! i) s of (c, s') \<Rightarrow> run sched (calls[i := c]) s')
      else run sched calls s)"

text \<open>A call run alone, from start to return: seven turns are enough for each (a call
  that has returned stays as it is).\<close>

definition run_alone :: "call \<Rightarrow> server \<Rightarrow> call \<times> server" where
  "run_alone c s =
     (case run [0, 0, 0, 0, 0, 0, 0] [c] s of (calls, s') \<Rightarrow> (hd calls, s'))"

section \<open>Views of the state\<close>

text \<open>
  The usage row that \<open>getTokenUsage\<close> reads, the tables as committed (those of before
  \<open>BEGIN\<close> while a transaction is open), and what a function has put on the wire.
\<close>

definition ledger :: "tables \<Rightarrow> usage_row" where
  "ledger t = (case usage_stats t of
                 [] \<Rightarrow> \<lparr>total_tokens_used = 0, total_limit = 10000\<rparr>
               | r # rs \<Rightarrow> r)"

fun snapshot_or :: "tables option \<Rightarrow> tables \<Rightarrow> tables" where
  "snapshot_or None t = t"
| "snapshot_or (Some t0) t = t0"

definition committed :: "server \<Rightarrow> tables" where
  "committed s = snapshot_or (txn s) (store s)"

definition emitted :: "server \<Rightarrow> server \<Rightarrow> (nat \<times> message) list" where
  "emitted s s' = drop (length (wire s)) (wire s')"

text \<open>
  The usage object that \<open>broadcastUpdate\<close>, \<open>handleRequestUpdate\<close> and \<open>handleExtendLimit\<close>
  each write out for the row they have read, and the one \<open>handleClearDatabase\<close> writes
  out after a clearing.
\<close>

definition usage_object :: "usage_row \<Rightarrow> usage_payload" where
  "usage_object usage =
     \<lparr>totalTokensUsed = total_tokens_used usage,
      limit = total_limit usage,
      remaining = max 0 (total_limit usage - total_tokens_used usage),
      exceeded = (total_tokens_used usage \<ge> total_limit usage)\<rparr>"

definition cleared_usage :: "usage_row \<Rightarrow> usage_payload" where
  "cleared_usage usage =
     \<lparr>totalTokensUsed = 0, limit = total_limit usage, remaining = total_limit usage,
      exceeded = False\<rparr>"

text \<open>
  The row \<open>addChatEntry\<close> inserts and the tables it leaves when the driver accepts both
  of its statements.
\<close>

definition committed_entry ::
  "server \<Rightarrow> string \<Rightarrow> string \<Rightarrow> jsnum option \<Rightarrow> string \<Rightarrow> chat_options \<Rightarrow> chat_row" where
  "committed_entry s p t g m opts =
     \<lparr>row_id = next_chat_id (store s), user_input = p, response = t,
      gemini_token_count = js_or g (simpleTokenEstimate (p @ t)),
      tiktoken_estimate = None, model = m,
      temperature = temperature_or (opt_temperature opts) (7 / 10),
      max_tokens = js_or (opt_maxTokens opts) 1024, timestamp = clock s\<rparr>"

definition after_commit ::
  "server \<Rightarrow> string \<Rightarrow> string \<Rightarrow> jsnum option \<Rightarrow> string \<Rightarrow> chat_options \<Rightarrow> tables" where
  "after_commit s p t g m opts =
     (store s)\<lparr>
        usage_stats := map (\<lambda>r. r\<lparr>total_tokens_used := total_tokens_used r +
                                   js_or g (simpleTokenEstimate (p @ t))\<rparr>)
                         (usage_stats (store s)),
        chat_history := chat_history (store s) @ [committed_entry s p t g m opts],
        sqlite_sequence := (''chat_history'', next_chat_id (store s)) #
           filter (\<lambda>p. fst p \<noteq> ''chat_history'') (sqlite_sequence (store s))\<rparr>"

text \<open>
  A process that has not opened its database yet, on an empty file, and the process as
  \<open>startServer\<close> of \<open>index.js\<close> leaves it when \<open>initializeDatabase\<close> has returned: the
  server only starts serving then, so every request finds \<open>handle\<close> set.
\<close>

definition fresh_process :: server where
  "fresh_process =
     \<lparr>handle = False,
      store = \<lparr>usage_stats = [], chat_history = [], token_comparisons = [],
               sqlite_sequence = []\<rparr>,
      txn = None, faults = [], clock = 0, wsClients = [], wire = []\<rparr>"

definition started_server :: server where
  "started_server =
     \<lparr>handle = True,
      store = \<lparr>usage_stats = [\<lparr>total_tokens_used = 0, total_limit = 10000\<rparr>],
               chat_history = [], token_comparisons = [],
               sqlite_sequence = [(''usage_stats'', 1)]\<rparr>,
      txn = None, faults = [], clock = 0, wsClients = [], wire = []\<rparr>"

text \<open>
  A server that has answered one request: one row of history, 12000 tokens used of
  10000.
\<close>

definition used_server :: server where
  "used_server =
     \<lparr>handle = True,
      store = \<lparr>usage_stats = [\<lparr>total_tokens_used = 12000, total_limit = 10000\<rparr>],
               chat_history =
                 [\<lparr>row_id = 1, user_input = ''hi'', response = ''hello'',
                   gemini_token_count = 12000, tiktoken_estimate = None,
                   model = ''gemini-1.5-flash'', temperature = 7 / 10, max_tokens = 1024,
                   timestamp = 0\<rparr>],
               token_comparisons = [],
               sqlite_sequence = [(''chat_history'', 1), (''usage_stats'', 1)]\<rparr>,
      txn = None, faults = [], clock = 5, wsClients = [], wire = []\<rparr>"

text \<open>
  What a clearing leaves of the tables: the history empty, every usage row at zero
  tokens used with its limit kept, and the named sequences gone.  \<open>clearing\<close> is the
  transaction that \<open>clearDatabase\<close> and \<open>handleClearDatabase\<close> both run, from \<open>BEGIN\<close> to
  \<open>COMMIT\<close> (the second without the statement on \<open>token_comparisons\<close>), and \<open>recover\<close>
  the inner \<open>try\<close> of their \<open>catch\<close> blocks; both functions are shown below to be made
  of these.
\<close>

definition cleared :: "string list \<Rightarrow> tables \<Rightarrow> tables" where
  "cleared names t =
     t\<lparr>usage_stats := map (\<lambda>r. r\<lparr>total_tokens_used := 0\<rparr>) (usage_stats t),
       chat_history := [],
       token_comparisons := (if ''token_comparisons'' \<in> set names then [] else token_comparisons t),
       sqlite_sequence := filter (\<lambda>p. fst p \<notin> set names) (sqlite_sequence t)\<rparr>"

definition clearing :: "string list \<Rightarrow> bool \<Rightarrow> unit io" where
  "clearing names cmp =
     bindE sql_begin (\<lambda>_.
     bindE (if cmp then sql delete_token_comparisons else returnE ()) (\<lambda>_.
     bindE (sql delete_chat_history) (\<lambda>_.
     bindE (sql update_tokens_used_zero) (\<lambda>_.
     bindE (sql (delete_sequences names)) (\<lambda>_.
     sql_commit)))))"

definition recover :: "unit io" where
  "recover = catchE (bindE getDb (\<lambda>_. sql_rollback)) (\<lambda>rollbackError. returnE ())"

text \<open>
  Three registered clients, the second with its socket closed, and the server above
  serving them.
\<close>

definition three_clients :: "(websocket \<times> client_info) list" where
  "three_clients =
     [(\<lparr>ws_id = 1, readyState = OPEN, send_throws = False\<rparr>,
       \<lparr>client_id = ''A'', ip = ''::1'', connectedAt = 1, isAdmin = True, lastActivity = 1\<rparr>),
      (\<lparr>ws_id = 2, readyState = CLOSED, send_throws = False\<rparr>,
       \<lparr>client_id = ''B'', ip = ''::1'', connectedAt = 2, isAdmin = True, lastActivity = 2\<rparr>),
      (\<lparr>ws_id = 3, readyState = OPEN, send_throws = False\<rparr>,
       \<lparr>client_id = ''C'', ip = ''::1'', connectedAt = 3, isAdmin = True, lastActivity = 3\<rparr>)]"

definition busy_server :: server where
  "busy_server = used_server\<lparr>wsClients := three_clients\<rparr>"

text \<open>
  What a call of \<open>addChatEntry\<close> has still to add to the tokens used, which calls belong
  to \<open>addChatEntry\<close>, and which calls have returned.
\<close>

fun pending :: "call \<Rightarrow> int" where
  "pending (AddChatEntry userInput resp geminiTokenCount mdl options) =
     js_or geminiTokenCount (simpleTokenEstimate (userInput @ resp))"
| "pending (Add_inserted lastID tokenCount) = tokenCount"
| "pending c = 0"

fun is_add :: "call \<Rightarrow> bool" where
  "is_add (AddChatEntry userInput resp geminiTokenCount mdl options) = True"
| "is_add (Add_inserted lastID tokenCount) = True"
| "is_add (Add_returned r) = True"
| "is_add c = False"

fun has_returned :: "call \<Rightarrow> bool" where
  "has_returned (Add_returned r) = True"
| "has_returned (Extend_returned r) = True"
| "has_returned (Clear_returned r) = True"
| "has_returned c = False"

section \<open>Properties\<close>

subsection \<open>Statements and reads on an open database\<close>

lemma getDb_open: "handle s \<Longrightarrow> getDb s = (Inr (), s)"
  by (simp add: getDb_def returnE_def)

lemma sql_accepted:
  "\<not> next_fault (faults s) \<Longrightarrow>
   sql f s = (Inr (fst (f (store s))), s\<lparr>store := snd (f (store s)), faults := tl (faults s)\<rparr>)"
  by (simp add: sql_def split: prod.splits)

lemma sql_rejected:
  "next_fault (faults s) \<Longrightarrow> sql f s = (Inl StorageFailure, s\<lparr>faults := tl (faults s)\<rparr>)"
  by (simp add: sql_def)

lemma getTokenUsage_open:
  "handle s \<Longrightarrow> \<not> next_fault (faults s) \<Longrightarrow>
   getTokenUsage s = (Inr (ledger (store s)), s\<lparr>faults := tl (faults s)\<rparr>)"
  by (simp add: getTokenUsage_def bindE_def getDb_open sql_accepted returnE_def
        select_usage_stats_def ledger_def split: list.splits)

lemma getTokenUsage_rejected:
  "handle s \<Longrightarrow> next_fault (faults s) \<Longrightarrow>
   getTokenUsage s = (Inl StorageFailure, s\<lparr>faults := tl (faults s)\<rparr>)"
  by (simp add: getTokenUsage_def bindE_def getDb_open sql_rejected)

lemma isTokenLimitExceeded_open:
  "handle s \<Longrightarrow> \<not> next_fault (faults s) \<Longrightarrow>
   isTokenLimitExceeded s =
     (Inr (total_tokens_used (ledger (store s)) \<ge> total_limit (ledger (store s))),
      s\<lparr>faults := tl (faults s)\<rparr>)"
  by (simp add: isTokenLimitExceeded_def bindE_def getTokenUsage_open returnE_def)

lemma addChatEntry_open:
  "handle s \<Longrightarrow> \<not> next_fault (faults s) \<Longrightarrow> \<not> next_fault (tl (faults s)) \<Longrightarrow>
   addChatEntry p t g m opts s =
     (Inr \<lparr>chatId = next_chat_id (store s),
           tokensAdded = js_or g (simpleTokenEstimate (p @ t))\<rparr>,
      s\<lparr>store := after_commit s p t g m opts, faults := tl (tl (faults s))\<rparr>)"
  by (simp add: addChatEntry_def bindE_def getDb_open sql_accepted returnE_def Let_def
        insert_chat_history_def update_tokens_used_add_def committed_entry_def after_commit_def)

lemma ledger_after_commit:
  "usage_stats (store s) \<noteq> [] \<Longrightarrow>
   ledger (after_commit s p t g m opts) =
     (ledger (store s))\<lparr>total_tokens_used := total_tokens_used (ledger (store s)) +
                          js_or g (simpleTokenEstimate (p @ t))\<rparr>"
  by (cases "usage_stats (store s)") (simp_all add: ledger_def after_commit_def)

lemma bit_length_bound: "n < 2 ^ k \<Longrightarrow> bit_length n \<le> k"
proof (induction k arbitrary: n)
  case 0
  then have "n = 0" by simp
  then show ?case by (simp add: bit_length.simps [of 0])
next
  case (Suc k)
  show ?case
  proof (cases "n = 0")
    case True
    then show ?thesis by (simp add: bit_length.simps [of 0])
  next
    case False
    from Suc.prems have "n div 2 < 2 ^ k" by simp
    then have "bit_length (n div 2) \<le> k" by (rule Suc.IH)
    with False show ?thesis by (simp add: bit_length.simps [of n])
  qed
qed

lemma bit_length_power: "bit_length (2 ^ k) = Suc k"
proof (induction k)
  case 0
  have "bit_length (Suc 0) = Suc (bit_length 0)"
    by (subst bit_length.simps) simp
  then show ?case by (simp add: bit_length.simps [of 0])
next
  case (Suc k)
  have "bit_length (2 ^ Suc k) = Suc (bit_length (2 ^ Suc k div 2))"
    by (subst bit_length.simps) simp
  with Suc show ?case by simp
qed

lemma round53_nat_safe: "m \<le> 2 ^ 53 \<Longrightarrow> round53_nat m = m"
proof (cases "m < 2 ^ 53")
  case True
  then have "bit_length m - 53 = 0"
    using bit_length_bound [of m 53] by simp
  then show ?thesis by (simp add: round53_nat_def Let_def)
next
  case False
  assume "m \<le> 2 ^ 53"
  with False have m: "m = 2 ^ 53" by simp
  have "bit_length m - 53 = 1"
    unfolding m bit_length_power by simp
  then show ?thesis
    by (simp add: round53_nat_def Let_def m)
qed

lemma round53_safe: "\<bar>n\<bar> \<le> 9007199254740992 \<Longrightarrow> round53 n = n"
  by (simp add: round53_def round53_nat_safe)

lemma js_plus_safe: "\<bar>a + b\<bar> \<le> 9007199254740992 \<Longrightarrow> js_plus a b = a + b"
  by (simp add: js_plus_def round53_safe)

lemma extendTokenLimit_open:
  "handle s \<Longrightarrow> \<not> next_fault (faults s) \<Longrightarrow> \<not> next_fault (tl (faults s)) \<Longrightarrow>
   \<not> next_fault (tl (tl (faults s))) \<Longrightarrow> usage_stats (store s) = r # rs \<Longrightarrow>
   0 < a \<Longrightarrow> a \<le> m \<Longrightarrow> \<bar>total_limit r + a\<bar> \<le> 9007199254740992 \<Longrightarrow>
   extendTokenLimit (Num a) (Num m) s =
     (Inr \<lparr>success = True, previousLimit = total_limit r, newLimit = total_limit r + a,
           amountAdded = a, currentUsage = total_tokens_used r\<rparr>,
      s\<lparr>store := (store s)\<lparr>usage_stats :=
             map (\<lambda>r'. r'\<lparr>total_limit := total_limit r + a\<rparr>) (usage_stats (store s))\<rparr>,
        faults := tl (tl (tl (faults s)))\<rparr>)"
  by (simp add: extendTokenLimit_def bindE_def getDb_open sql_accepted returnE_def Let_def
        select_usage_stats_def update_total_limit_def getTokenUsage_open ledger_def
        js_plus_safe)

lemma simpleTokenEstimate_ceiling:
  "simpleTokenEstimate text = \<lceil>real (length text) / 4\<rceil>"
proof -
  have "\<lceil>of_rat (of_nat (length text) / 4) :: real\<rceil> = \<lceil>of_nat (length text) / (4 :: rat)\<rceil>"
    by (rule of_rat_ceiling)
  then show ?thesis
    by (simp add: simpleTokenEstimate_def of_rat_divide)
qed

lemma simpleTokenEstimate_div: "simpleTokenEstimate text = (int (length text) + 3) div 4"
  unfolding simpleTokenEstimate_ceiling by linarith

lemma initializeDatabase_fresh: "initializeDatabase fresh_process = (Inr (), started_server)"
  by (simp add: initializeDatabase_def bindE_def db_open_def fresh_process_def sql_def
      select_usage_stats_def insert_usage_stats_def started_server_def sequence_of_def)

lemma initializeDatabase_result:
  "initializeDatabase s = (Inr u, s') \<Longrightarrow> handle s' \<and> usage_stats (store s') \<noteq> []"
  by (auto simp add: initializeDatabase_def bindE_def db_open_def sql_def
      select_usage_stats_def insert_usage_stats_def returnE_def
      split: if_splits list.splits)

subsection \<open>The ledger\<close>

text \<open>
  C1.  From the ledger \<open>0 / 10000\<close>, with the driver accepting every statement:
  \<open>addChatEntry\<close> with a count of 4000 leaves \<open>4000 / 10000\<close>; \<open>extendTokenLimit\<close> of 5000
  with a maximum of 20000 returns the previous limit 10000 and the new limit 15000;
  \<open>isTokenLimitExceeded\<close> is false; \<open>addChatEntry\<close> with a count of 11000 leaves
  \<open>15000 / 15000\<close>; \<open>isTokenLimitExceeded\<close> is true.  In every state (so also at or past
  the limit) \<open>addChatEntry\<close> returns and adds its count to every usage row when the
  driver accepts its two statements, and whenever \<open>getTokenUsage\<close> returns a row,
  \<open>isTokenLimitExceeded\<close> returns whether that row's tokens used are at least its limit.
\<close>

theorem usage_ledger_scenario:
  "(handle s0 \<and> faults s0 = [] \<and>
    usage_stats (store s0) = [\<lparr>total_tokens_used = 0, total_limit = 10000\<rparr>] \<longrightarrow>
    (\<exists>a1 s1 e2 s2 s3 a4 s4 s5.
       addChatEntry p1 t1 (Some (Num 4000)) m1 o1 s0 = (Inr a1, s1) \<and>
       fst (getTokenUsage s1) = Inr \<lparr>total_tokens_used = 4000, total_limit = 10000\<rparr> \<and>
       extendTokenLimit (Num 5000) (Num 20000) s1 = (Inr e2, s2) \<and>
       previousLimit e2 = 10000 \<and> newLimit e2 = 15000 \<and>
       isTokenLimitExceeded s2 = (Inr False, s3) \<and>
       addChatEntry p2 t2 (Some (Num 11000)) m2 o2 s3 = (Inr a4, s4) \<and>
       fst (getTokenUsage s4) = Inr \<lparr>total_tokens_used = 15000, total_limit = 15000\<rparr> \<and>
       isTokenLimitExceeded s4 = (Inr True, s5))) \<and>
   (handle s \<and> \<not> next_fault (faults s) \<and> \<not> next_fault (tl (faults s)) \<longrightarrow>
    (\<exists>a s'. addChatEntry p t g m opts s = (Inr a, s') \<and>
       map total_tokens_used (usage_stats (store s')) =
         map (\<lambda>r. total_tokens_used r + tokensAdded a) (usage_stats (store s)))) \<and>
   (\<forall>u s'. getTokenUsage s = (Inr u, s') \<longrightarrow>
       isTokenLimitExceeded s = (Inr (total_tokens_used u \<ge> total_limit u), s'))"
  apply (intro conjI impI allI)
    apply (simp add: addChatEntry_open extendTokenLimit_open isTokenLimitExceeded_open
      getTokenUsage_open ledger_def after_commit_def)
   apply (simp add: addChatEntry_open after_commit_def)
  apply (simp add: isTokenLimitExceeded_def bindE_def returnE_def)
  done

theorem usage_ledger_scenario_witness:
  "handle started_server \<and> faults started_server = [] \<and>
   usage_stats (store started_server) = [\<lparr>total_tokens_used = 0, total_limit = 10000\<rparr>] \<and>
   (\<exists>a1 s1 e2 s2 s3 a4 s4 s5.
       addChatEntry ''hi'' ''hello'' (Some (Num 4000)) ''gemini-1.5-flash''
          \<lparr>opt_temperature = None, opt_maxTokens = None\<rparr> started_server = (Inr a1, s1) \<and>
       fst (getTokenUsage s1) = Inr \<lparr>total_tokens_used = 4000, total_limit = 10000\<rparr> \<and>
       extendTokenLimit (Num 5000) (Num 20000) s1 = (Inr e2, s2) \<and>
       previousLimit e2 = 10000 \<and> newLimit e2 = 15000 \<and>
       isTokenLimitExceeded s2 = (Inr False, s3) \<and>
       addChatEntry ''more'' ''text'' (Some (Num 11000)) ''gemini-1.5-flash''
          \<lparr>opt_temperature = None, opt_maxTokens = None\<rparr> s3 = (Inr a4, s4) \<and>
       fst (getTokenUsage s4) = Inr \<lparr>total_tokens_used = 15000, total_limit = 15000\<rparr> \<and>
       isTokenLimitExceeded s4 = (Inr True, s5)) \<and>
   fst (isTokenLimitExceeded started_server) = Inr False"
  using usage_ledger_scenario [of started_server "''hi''" "''hello''" "''gemini-1.5-flash''"
      "\<lparr>opt_temperature = None, opt_maxTokens = None\<rparr>" "''more''" "''text''" "''gemini-1.5-flash''"
      "\<lparr>opt_temperature = None, opt_maxTokens = None\<rparr>" started_server]
  by (simp add: started_server_def getTokenUsage_open ledger_def)

subsection \<open>The stream and the broadcast leave the tables alone\<close>

lemma fold_stream_chunk:
  "fold (stream_chunk json) chunks (acc, out) =
     (acc @ concat chunks,
      out @ map (\<lambda>t. if json then JsonChunk t else RawText t) (filter (\<lambda>t. t \<noteq> []) chunks))"
  by (induction chunks arbitrary: acc out) (simp_all add: stream_chunk_def)

lemma fold_broadcast_each:
  "fold (broadcast_each msg) cs (a, c, s) =
     (a + length (filter (\<lambda>e. readyState (fst e) = OPEN \<and> \<not> send_throws (fst e)) cs),
      c + length (filter (\<lambda>e. readyState (fst e) = CLOSED \<or> readyState (fst e) = CLOSING) cs),
      s\<lparr>wire := wire s @ map (\<lambda>e. (ws_id (fst e), msg))
                 (filter (\<lambda>e. readyState (fst e) = OPEN \<and> \<not> send_throws (fst e)) cs)\<rparr>)"
  by (induction cs arbitrary: a c s) (auto simp add: broadcast_each_def ws_send_def Let_def)

lemma fold_map_delete:
  "fold map_delete ds s =
     s\<lparr>wsClients := filter (\<lambda>e. ws_id (fst e) \<notin> ws_id ` set ds) (wsClients s)\<rparr>"
proof (induction ds arbitrary: s)
  case Nil
  show ?case by simp
next
  case (Cons d ds)
  have "fold map_delete (d # ds) s = fold map_delete ds (map_delete d s)"
    by simp
  also have "\<dots> = (map_delete d s)\<lparr>wsClients :=
      filter (\<lambda>e. ws_id (fst e) \<notin> ws_id ` set ds) (wsClients (map_delete d s))\<rparr>"
    by (rule Cons.IH)
  also have "\<dots> = s\<lparr>wsClients :=
      filter (\<lambda>e. ws_id (fst e) \<notin> ws_id ` set (d # ds)) (wsClients s)\<rparr>"
    by (auto simp add: map_delete_def intro: filter_cong)
  finally show ?case .
qed

lemma cleanupClosedConnections_state:
  "snd (cleanupClosedConnections s) =
     s\<lparr>wsClients :=
         filter (\<lambda>e. ws_id (fst e) \<notin> ws_id ` fst ` {e \<in> set (wsClients s).
                     readyState (fst e) = CLOSED \<or> readyState (fst e) = CLOSING})
           (wsClients s)\<rparr>"
  by (simp add: cleanupClosedConnections_def Let_def fold_map_delete image_image)

lemma broadcastToAll_frame:
  "store (snd (broadcastToAll msg s)) = store s \<and>
   handle (snd (broadcastToAll msg s)) = handle s \<and>
   faults (snd (broadcastToAll msg s)) = faults s \<and>
   txn (snd (broadcastToAll msg s)) = txn s \<and>
   clock (snd (broadcastToAll msg s)) = clock s"
  by (simp add: broadcastToAll_def fold_broadcast_each cleanupClosedConnections_state)

lemma broadcastToAll_wire:
  "wire (snd (broadcastToAll msg s)) =
     wire s @ map (\<lambda>e. (ws_id (fst e), msg))
       (filter (\<lambda>e. readyState (fst e) = OPEN \<and> \<not> send_throws (fst e)) (wsClients s))"
  by (simp add: broadcastToAll_def fold_broadcast_each cleanupClosedConnections_state)

lemma getRecentChats_open:
  "handle s \<Longrightarrow> \<not> next_fault (faults s) \<Longrightarrow>
   getRecentChats n s = (Inr (fst (select_recent_chats n (store s))), s\<lparr>faults := tl (faults s)\<rparr>)"
  by (simp add: getRecentChats_def bindE_def getDb_open sql_accepted returnE_def
      select_recent_chats_def Let_def)

lemma getRecentChats_rejected:
  "handle s \<Longrightarrow> next_fault (faults s) \<Longrightarrow>
   getRecentChats n s = (Inl StorageFailure, s\<lparr>faults := tl (faults s)\<rparr>)"
  by (simp add: getRecentChats_def bindE_def getDb_open sql_rejected)

lemma store_getTokenUsage: "handle s \<Longrightarrow> store (snd (getTokenUsage s)) = store s"
  by (cases "next_fault (faults s)") (simp_all add: getTokenUsage_open getTokenUsage_rejected)

lemma liftE_pair: "liftE f s = (Inr (fst (f s)), snd (f s))"
  by (simp add: liftE_def split: prod.splits)

lemma store_broadcastUpdate: "handle s \<Longrightarrow> store (snd (broadcastUpdate s)) = store s"
  apply (cases "next_fault (faults s)"; cases "next_fault (tl (faults s))")
     apply (simp_all add: broadcastUpdate_def Let_def catchE_def bindE_def returnE_def liftE_pair
      getTokenUsage_open getTokenUsage_rejected getRecentChats_open getRecentChats_rejected
      broadcastToAll_frame)
  done

lemma store_handleStreamingChat:
  "handle s \<Longrightarrow> \<not> next_fault (faults s) \<Longrightarrow> \<not> next_fault (tl (faults s)) \<Longrightarrow>
   body_message body \<noteq> [] \<Longrightarrow>
   store (snd (handleStreamingChat body (Generated chunks final) s)) =
     after_commit s (body_message body) (concat chunks) (extractGeminiTokenCount final)
       (modelName_of body) (options_of body)"
  apply (cases "next_fault (tl (tl (faults s)))")
   apply (simp_all add: handleStreamingChat_def Let_def fold_stream_chunk stream_commit_def
      bindE_def returnE_def addChatEntry_open getTokenUsage_open getTokenUsage_rejected
      store_broadcastUpdate)
  done

subsection \<open>The fallback estimate\<close>

text \<open>
  C2.  With the database open, a usage row in place and the driver accepting the two
  statements of the commit, \<open>addChatEntry\<close> called with no count (\<open>null\<close>) for the
  prompt \<open>P\<close> and the output \<open>T\<close> appends one row holding \<open>P\<close>, \<open>T\<close> and the count
  \<open>ceil(length(P + T) / 4)\<close>, and adds exactly that count to the tokens used.  The same
  holds for a completed run of \<open>handleStreamingChat\<close> whose final response carries no
  count, \<open>T\<close> being the chunks put together.  The estimate of the concatenation is not
  the sum of the two estimates: for \<open>a\<close> and \<open>b\<close> the first is 1 and the second is 2.
\<close>

theorem commit_without_count_estimates_concatenation:
  "(handle s \<and> \<not> next_fault (faults s) \<and> \<not> next_fault (tl (faults s)) \<and>
    usage_stats (store s) \<noteq> [] \<longrightarrow>
    (\<exists>a s' e.
       addChatEntry P T None m opts s = (Inr a, s') \<and>
       tokensAdded a = \<lceil>real (length (P @ T)) / 4\<rceil> \<and>
       chat_history (store s') = chat_history (store s) @ [e] \<and>
       user_input e = P \<and> response e = T \<and>
       gemini_token_count e = \<lceil>real (length (P @ T)) / 4\<rceil> \<and>
       total_tokens_used (ledger (store s')) =
         total_tokens_used (ledger (store s)) + \<lceil>real (length (P @ T)) / 4\<rceil>)) \<and>
   (handle s \<and> \<not> next_fault (faults s) \<and> \<not> next_fault (tl (faults s)) \<and>
    usage_stats (store s) \<noteq> [] \<and> body_message body \<noteq> [] \<and>
    extractGeminiTokenCount final = None \<longrightarrow>
    (\<exists>e.
       chat_history (store (snd (handleStreamingChat body (Generated chunks final) s))) =
         chat_history (store s) @ [e] \<and>
       user_input e = body_message body \<and> response e = concat chunks \<and>
       gemini_token_count e = \<lceil>real (length (body_message body @ concat chunks)) / 4\<rceil> \<and>
       total_tokens_used (ledger (store (snd (handleStreamingChat body (Generated chunks final) s)))) =
         total_tokens_used (ledger (store s)) +
         \<lceil>real (length (body_message body @ concat chunks)) / 4\<rceil>)) \<and>
   simpleTokenEstimate (''a'' @ ''b'') = 1 \<and> estimateCombinedTokens ''a'' ''b'' = 2"
proof (intro conjI impI)
  assume h: "handle s \<and> \<not> next_fault (faults s) \<and> \<not> next_fault (tl (faults s)) \<and>
    usage_stats (store s) \<noteq> []"
  have "js_or None (simpleTokenEstimate (P @ T)) = \<lceil>real (length (P @ T)) / 4\<rceil>"
    using simpleTokenEstimate_ceiling [of "P @ T"] by simp
  with h show "\<exists>a s' e.
       addChatEntry P T None m opts s = (Inr a, s') \<and>
       tokensAdded a = \<lceil>real (length (P @ T)) / 4\<rceil> \<and>
       chat_history (store s') = chat_history (store s) @ [e] \<and>
       user_input e = P \<and> response e = T \<and>
       gemini_token_count e = \<lceil>real (length (P @ T)) / 4\<rceil> \<and>
       total_tokens_used (ledger (store s')) =
         total_tokens_used (ledger (store s)) + \<lceil>real (length (P @ T)) / 4\<rceil>"
    by (simp add: addChatEntry_open ledger_after_commit)
       (simp add: after_commit_def committed_entry_def)
next
  assume h: "handle s \<and> \<not> next_fault (faults s) \<and> \<not> next_fault (tl (faults s)) \<and>
    usage_stats (store s) \<noteq> [] \<and> body_message body \<noteq> [] \<and>
    extractGeminiTokenCount final = None"
  have "js_or None (simpleTokenEstimate (body_message body @ concat chunks)) =
        \<lceil>real (length (body_message body @ concat chunks)) / 4\<rceil>"
    using simpleTokenEstimate_ceiling [of "body_message body @ concat chunks"] by simp
  with h show "\<exists>e.
       chat_history (store (snd (handleStreamingChat body (Generated chunks final) s))) =
         chat_history (store s) @ [e] \<and>
       user_input e = body_message body \<and> response e = concat chunks \<and>
       gemini_token_count e = \<lceil>real (length (body_message body @ concat chunks)) / 4\<rceil> \<and>
       total_tokens_used (ledger (store (snd (handleStreamingChat body (Generated chunks final) s)))) =
         total_tokens_used (ledger (store s)) +
         \<lceil>real (length (body_message body @ concat chunks)) / 4\<rceil>"
    by (simp add: store_handleStreamingChat ledger_after_commit)
       (simp add: after_commit_def committed_entry_def)
next
  show "simpleTokenEstimate (''a'' @ ''b'') = 1"
    by (simp add: simpleTokenEstimate_div)
next
  show "estimateCombinedTokens ''a'' ''b'' = 2"
    by (simp add: estimateCombinedTokens_def simpleTokenEstimate_div)
qed

theorem commit_without_count_estimates_concatenation_witness:
  "handle started_server \<and> \<not> next_fault (faults started_server) \<and>
   \<not> next_fault (tl (faults started_server)) \<and> usage_stats (store started_server) \<noteq> [] \<and>
   (\<exists>a s' e.
       addChatEntry ''hi'' ''hello'' None ''gemini-1.5-flash''
         \<lparr>opt_temperature = None, opt_maxTokens = None\<rparr> started_server = (Inr a, s') \<and>
       tokensAdded a = 2 \<and>
       chat_history (store s') = chat_history (store started_server) @ [e] \<and>
       user_input e = ''hi'' \<and> response e = ''hello'' \<and> gemini_token_count e = 2 \<and>
       total_tokens_used (ledger (store s')) = 2) \<and>
   (\<exists>e.
       chat_history (store (snd (handleStreamingChat
          \<lparr>body_message = ''hi'', body_model = None, body_options = None, body_format = None\<rparr>
          (Generated [''hel'', [], ''lo''] None) started_server))) = [e] \<and>
       user_input e = ''hi'' \<and> response e = ''hello'' \<and> gemini_token_count e = 2 \<and>
       total_tokens_used (ledger (store (snd (handleStreamingChat
          \<lparr>body_message = ''hi'', body_model = None, body_options = None, body_format = None\<rparr>
          (Generated [''hel'', [], ''lo''] None) started_server)))) = 2)"
  using commit_without_count_estimates_concatenation
    [where s = started_server and P = "''hi''" and T = "''hello''"
       and m = "''gemini-1.5-flash''"
       and opts = "\<lparr>opt_temperature = None, opt_maxTokens = None\<rparr>"
       and body = "\<lparr>body_message = ''hi'', body_model = None, body_options = None,
                    body_format = None\<rparr>"
       and chunks = "[''hel'', [], ''lo'']" and final = None]
  by (simp add: started_server_def ledger_def extractGeminiTokenCount_def)

text \<open>
  C9.  A count of zero is treated as no count.  When the count handed to
  \<open>addChatEntry\<close> is \<open>null\<close>, \<open>0\<close> or \<open>NaN\<close>, the appended row and the addition to the
  tokens used both carry \<open>ceil(length(input + response) / 4)\<close>; so does a completed
  run of \<open>handleStreamingChat\<close> when \<open>extractGeminiTokenCount\<close> gives one of these, as it
  does (\<open>0\<close>) for a response whose metadata reports zero tokens, and (\<open>null\<close>) for a
  missing response.
\<close>

theorem zero_count_falls_back_to_estimate:
  "((g = None \<or> g = Some (Num 0) \<or> g = Some NaN) \<and>
    handle s \<and> \<not> next_fault (faults s) \<and> \<not> next_fault (tl (faults s)) \<and>
    usage_stats (store s) \<noteq> [] \<longrightarrow>
    (\<exists>a s' e.
       addChatEntry P T g m opts s = (Inr a, s') \<and>
       tokensAdded a = \<lceil>real (length (P @ T)) / 4\<rceil> \<and>
       chat_history (store s') = chat_history (store s) @ [e] \<and>
       gemini_token_count e = \<lceil>real (length (P @ T)) / 4\<rceil> \<and>
       total_tokens_used (ledger (store s')) =
         total_tokens_used (ledger (store s)) + \<lceil>real (length (P @ T)) / 4\<rceil>)) \<and>
   ((extractGeminiTokenCount final = None \<or> extractGeminiTokenCount final = Some (Num 0) \<or>
     extractGeminiTokenCount final = Some NaN) \<and>
    handle s \<and> \<not> next_fault (faults s) \<and> \<not> next_fault (tl (faults s)) \<and>
    usage_stats (store s) \<noteq> [] \<and> body_message body \<noteq> [] \<longrightarrow>
    (\<exists>e.
       chat_history (store (snd (handleStreamingChat body (Generated chunks final) s))) =
         chat_history (store s) @ [e] \<and>
       gemini_token_count e = \<lceil>real (length (body_message body @ concat chunks)) / 4\<rceil> \<and>
       total_tokens_used (ledger (store (snd (handleStreamingChat body (Generated chunks final) s)))) =
         total_tokens_used (ledger (store s)) +
         \<lceil>real (length (body_message body @ concat chunks)) / 4\<rceil>)) \<and>
   extractGeminiTokenCount
     (Some \<lparr>usageMetadata = Some \<lparr>totalTokenCount = Some 0, promptTokenCount = Some 0,
                                  candidatesTokenCount = Some 0\<rparr>,
            candidates = None, response_usageMetadata = None\<rparr>) = Some (Num 0) \<and>
   extractGeminiTokenCount None = None"
proof (intro conjI impI)
  assume h: "(g = None \<or> g = Some (Num 0) \<or> g = Some NaN) \<and>
    handle s \<and> \<not> next_fault (faults s) \<and> \<not> next_fault (tl (faults s)) \<and>
    usage_stats (store s) \<noteq> []"
  then have "js_or g (simpleTokenEstimate (P @ T)) = \<lceil>real (length (P @ T)) / 4\<rceil>"
    using simpleTokenEstimate_ceiling [of "P @ T"] by auto
  with h show "\<exists>a s' e.
       addChatEntry P T g m opts s = (Inr a, s') \<and>
       tokensAdded a = \<lceil>real (length (P @ T)) / 4\<rceil> \<and>
       chat_history (store s') = chat_history (store s) @ [e] \<and>
       gemini_token_count e = \<lceil>real (length (P @ T)) / 4\<rceil> \<and>
       total_tokens_used (ledger (store s')) =
         total_tokens_used (ledger (store s)) + \<lceil>real (length (P @ T)) / 4\<rceil>"
    by (simp add: addChatEntry_open ledger_after_commit)
       (simp add: after_commit_def committed_entry_def)
next
  assume h: "(extractGeminiTokenCount final = None \<or> extractGeminiTokenCount final = Some (Num 0) \<or>
     extractGeminiTokenCount final = Some NaN) \<and>
    handle s \<and> \<not> next_fault (faults s) \<and> \<not> next_fault (tl (faults s)) \<and>
    usage_stats (store s) \<noteq> [] \<and> body_message body \<noteq> []"
  then have "js_or (extractGeminiTokenCount final)
               (simpleTokenEstimate (body_message body @ concat chunks)) =
             \<lceil>real (length (body_message body @ concat chunks)) / 4\<rceil>"
    using simpleTokenEstimate_ceiling [of "body_message body @ concat chunks"] by auto
  with h show "\<exists>e.
       chat_history (store (snd (handleStreamingChat body (Generated chunks final) s))) =
         chat_history (store s) @ [e] \<and>
       gemini_token_count e = \<lceil>real (length (body_message body @ concat chunks)) / 4\<rceil> \<and>
       total_tokens_used (ledger (store (snd (handleStreamingChat body (Generated chunks final) s)))) =
         total_tokens_used (ledger (store s)) +
         \<lceil>real (length (body_message body @ concat chunks)) / 4\<rceil>"
    by (simp add: store_handleStreamingChat ledger_after_commit)
       (simp add: after_commit_def committed_entry_def)
next
  show "extractGeminiTokenCount
     (Some \<lparr>usageMetadata = Some \<lparr>totalTokenCount = Some 0, promptTokenCount = Some 0,
                                  candidatesTokenCount = Some 0\<rparr>,
            candidates = None, response_usageMetadata = None\<rparr>) = Some (Num 0)"
    by (simp add: extractGeminiTokenCount_def metadata_count_def js_add_def)
next
  show "extractGeminiTokenCount None = None"
    by (simp add: extractGeminiTokenCount_def)
qed

theorem zero_count_falls_back_to_estimate_witness:
  "handle started_server \<and> \<not> next_fault (faults started_server) \<and>
   \<not> next_fault (tl (faults started_server)) \<and> usage_stats (store started_server) \<noteq> [] \<and>
   (\<exists>a s' e.
       addChatEntry ''hi'' ''hello'' (Some (Num 0)) ''gemini-1.5-flash''
         \<lparr>opt_temperature = None, opt_maxTokens = None\<rparr> started_server = (Inr a, s') \<and>
       tokensAdded a = 2 \<and> chat_history (store s') = [e] \<and> gemini_token_count e = 2 \<and>
       total_tokens_used (ledger (store s')) = 2) \<and>
   (\<exists>e.
       chat_history (store (snd (handleStreamingChat
          \<lparr>body_message = ''hi'', body_model = None, body_options = None, body_format = None\<rparr>
          (Generated [''hel'', ''lo'']
             (Some \<lparr>usageMetadata = Some \<lparr>totalTokenCount = Some 0, promptTokenCount = Some 0,
                                          candidatesTokenCount = Some 0\<rparr>,
                    candidates = None, response_usageMetadata = None\<rparr>))
          started_server))) = [e] \<and>
       gemini_token_count e = 2 \<and>
       total_tokens_used (ledger (store (snd (handleStreamingChat
          \<lparr>body_message = ''hi'', body_model = None, body_options = None, body_format = None\<rparr>
          (Generated [''hel'', ''lo'']
             (Some \<lparr>usageMetadata = Some \<lparr>totalTokenCount = Some 0, promptTokenCount = Some 0,
                                          candidatesTokenCount = Some 0\<rparr>,
                    candidates = None, response_usageMetadata = None\<rparr>))
          started_server)))) = 2)"
  using zero_count_falls_back_to_estimate
    [where s = started_server and P = "''hi''" and T = "''hello''" and g = "Some (Num 0)"
       and m = "''gemini-1.5-flash''"
       and opts = "\<lparr>opt_temperature = None, opt_maxTokens = None\<rparr>"
       and body = "\<lparr>body_message = ''hi'', body_model = None, body_options = None,
                    body_format = None\<rparr>"
       and chunks = "[''hel'', ''lo'']"
       and final = "Some \<lparr>usageMetadata = Some \<lparr>totalTokenCount = Some 0,
                       promptTokenCount = Some 0, candidatesTokenCount = Some 0\<rparr>,
                     candidates = None, response_usageMetadata = None\<rparr>"]
  by (simp add: started_server_def ledger_def)

subsection \<open>Extending the limit\<close>

lemma fold_broadcast_other:
  "fold (broadcast_other ex msg) cs (n, s) =
     (n + length (filter (\<lambda>e. ws_id (fst e) \<noteq> ws_id ex \<and> readyState (fst e) = OPEN \<and>
                               \<not> send_throws (fst e)) cs),
      s\<lparr>wire := wire s @ map (\<lambda>e. (ws_id (fst e), msg))
                 (filter (\<lambda>e. ws_id (fst e) \<noteq> ws_id ex \<and> readyState (fst e) = OPEN \<and>
                               \<not> send_throws (fst e)) cs)\<rparr>)"
  by (induction cs arbitrary: n s) (auto simp add: broadcast_other_def ws_send_def Let_def)

lemma broadcastToOthers_frame:
  "store (snd (broadcastToOthers ex msg s)) = store s \<and>
   txn (snd (broadcastToOthers ex msg s)) = txn s \<and>
   wsClients (snd (broadcastToOthers ex msg s)) = wsClients s"
  by (simp add: broadcastToOthers_def fold_broadcast_other)

text \<open>
  \<open>handleExtendLimit\<close> when it goes through: the database is open, the driver accepts
  the three statements, there is a usage row, the amount is within the bounds, the sum
  is one the language adds exactly, and \<open>send\<close> does not throw.
\<close>

lemma handleExtendLimit_open:
  "handle s \<Longrightarrow> \<not> next_fault (faults s) \<Longrightarrow> \<not> next_fault (tl (faults s)) \<Longrightarrow>
   \<not> next_fault (tl (tl (faults s))) \<Longrightarrow> usage_stats (store s) = r # rs \<Longrightarrow>
   amount message = Num a \<Longrightarrow> 0 < a \<Longrightarrow> a \<le> maxExtensionAmount \<Longrightarrow>
   \<bar>total_limit r + a\<bar> \<le> 9007199254740992 \<Longrightarrow> \<not> send_throws ws \<Longrightarrow>
   handleExtendLimit ws message addr cid s =
     (Inr (),
      snd (broadcastToOthers ws
             (Update \<lparr>totalTokensUsed = total_tokens_used r,
                      limit = total_limit r + a,
                      remaining = max 0 (total_limit r + a - total_tokens_used r),
                      exceeded = (total_tokens_used r \<ge> total_limit r + a)\<rparr>
                None (LimitExtendedBy cid a))
             (s\<lparr>store := (store s)\<lparr>usage_stats :=
                    map (\<lambda>r'. r'\<lparr>total_limit := total_limit r + a\<rparr>) (usage_stats (store s))\<rparr>,
                faults := tl (tl (tl (faults s))),
                wire := wire s @
                  [(ws_id ws, ExtendLimitResponseSuccess a (total_limit r) (total_limit r + a)
                                (total_tokens_used r) cid)]\<rparr>)))"
  by (simp add: handleExtendLimit_def Let_def catchE_def bindE_def getDb_open sql_accepted
        select_total_limit_def update_total_limit_def getTokenUsage_open ledger_def
        ws_send_def liftE_def returnE_def js_plus_safe split: prod.splits)

lemma wire_broadcastToOthers:
  "\<exists>rest. wire (snd (broadcastToOthers ex msg s)) = wire s @ rest"
  by (simp add: broadcastToOthers_def fold_broadcast_other)

text \<open>
  C3.  \<open>extendTokenLimit\<close> throws \<open>Invalid extension amount\<close> for an amount that is
  \<open>NaN\<close>, zero or negative, and \<open>Extension amount exceeds the maximum allowed\<close> for an
  amount above a positive maximum; in both cases the state it leaves is the state it
  found.  Otherwise, with the database open, a usage row in place, the driver
  accepting its three statements, and the limit and the sum at most \<open>2^53\<close> in size
  (where the addition of the language is exact), it returns the limit of before, that
  limit plus the amount, and the tokens used, and leaves the limit raised by the amount,
  the tokens used and the history as they were.

  \<open>handleExtendLimit\<close>, which runs the same statements for an \<open>extendLimit\<close> message,
  does the same.  For an amount that is \<open>NaN\<close>, zero or negative it answers the sender
  \<open>Invalid or negative extension amount provided\<close>, for one above
  \<open>config.maxExtensionAmount\<close> it answers \<open>Extension amount exceeds the maximum allowed\<close>;
  in both cases the state is the state it found but for that one frame on the wire (and
  it is the state it found, with the error of \<open>send\<close> thrown, when \<open>send\<close> throws).
  Otherwise, under the conditions above and with a \<open>send\<close> that does not throw, it
  returns; the first frame it puts on the wire is the success response to the sender,
  with the limit of before, that limit plus the amount, and the tokens used; and it
  leaves the limit raised by the amount, the tokens used and the history as they were.
\<close>

theorem extend_rejects_before_mutation:
  "(a \<le> 0 \<longrightarrow> extendTokenLimit (Num a) (Num mx) s = (Inl InvalidExtensionAmount, s)) \<and>
   extendTokenLimit NaN (Num mx) s = (Inl InvalidExtensionAmount, s) \<and>
   (0 < mx \<and> mx < a \<longrightarrow>
      extendTokenLimit (Num a) (Num mx) s = (Inl (ExtensionExceedsMaximum (Num mx)), s)) \<and>
   (0 < a \<and> a \<le> mx \<and> handle s \<and> \<not> next_fault (faults s) \<and> \<not> next_fault (tl (faults s)) \<and>
    \<not> next_fault (tl (tl (faults s))) \<and> usage_stats (store s) \<noteq> [] \<and>
    \<bar>total_limit (ledger (store s))\<bar> \<le> 9007199254740992 \<and>
    \<bar>total_limit (ledger (store s)) + a\<bar> \<le> 9007199254740992 \<longrightarrow>
      (\<exists>r s'. extendTokenLimit (Num a) (Num mx) s = (Inr r, s') \<and>
         previousLimit r = total_limit (ledger (store s)) \<and>
         newLimit r = total_limit (ledger (store s)) + a \<and>
         currentUsage r = total_tokens_used (ledger (store s)) \<and>
         total_limit (ledger (store s')) = total_limit (ledger (store s)) + a \<and>
         total_tokens_used (ledger (store s')) = total_tokens_used (ledger (store s)) \<and>
         chat_history (store s') = chat_history (store s))) \<and>
   (amount message = NaN \<or> amount message = Num a \<and> a \<le> 0 \<longrightarrow>
      handleExtendLimit ws message addr cid s =
        (if send_throws ws then (Inl TransportFailure, s)
         else (Inr (), s\<lparr>wire := wire s @
                 [(ws_id ws, ExtendLimitResponseFailure InvalidAmountProvided cid)]\<rparr>))) \<and>
   (amount message = Num a \<and> maxExtensionAmount < a \<longrightarrow>
      handleExtendLimit ws message addr cid s =
        (if send_throws ws then (Inl TransportFailure, s)
         else (Inr (), s\<lparr>wire := wire s @
                 [(ws_id ws, ExtendLimitResponseFailure
                               (AmountExceedsMaximum maxExtensionAmount) cid)]\<rparr>))) \<and>
   (amount message = Num a \<and> 0 < a \<and> a \<le> maxExtensionAmount \<and> handle s \<and>
    \<not> next_fault (faults s) \<and> \<not> next_fault (tl (faults s)) \<and>
    \<not> next_fault (tl (tl (faults s))) \<and> usage_stats (store s) \<noteq> [] \<and>
    \<bar>total_limit (ledger (store s))\<bar> \<le> 9007199254740992 \<and>
    \<bar>total_limit (ledger (store s)) + a\<bar> \<le> 9007199254740992 \<and> \<not> send_throws ws \<longrightarrow>
      (\<exists>s'. handleExtendLimit ws message addr cid s = (Inr (), s') \<and>
         hd (emitted s s') =
           (ws_id ws, ExtendLimitResponseSuccess a (total_limit (ledger (store s)))
                        (total_limit (ledger (store s)) + a)
                        (total_tokens_used (ledger (store s))) cid) \<and>
         total_limit (ledger (store s')) = total_limit (ledger (store s)) + a \<and>
         total_tokens_used (ledger (store s')) = total_tokens_used (ledger (store s)) \<and>
         chat_history (store s') = chat_history (store s)))"
proof -
  have c1: "a \<le> 0 \<longrightarrow> extendTokenLimit (Num a) (Num mx) s = (Inl InvalidExtensionAmount, s)"
    by (simp add: extendTokenLimit_def throwE_def)
  have c2: "extendTokenLimit NaN (Num mx) s = (Inl InvalidExtensionAmount, s)"
    by (simp add: extendTokenLimit_def throwE_def)
  have c3: "0 < mx \<and> mx < a \<longrightarrow>
      extendTokenLimit (Num a) (Num mx) s = (Inl (ExtensionExceedsMaximum (Num mx)), s)"
    by (simp add: extendTokenLimit_def throwE_def)
  have c4: "0 < a \<and> a \<le> mx \<and> handle s \<and> \<not> next_fault (faults s) \<and>
    \<not> next_fault (tl (faults s)) \<and> \<not> next_fault (tl (tl (faults s))) \<and>
    usage_stats (store s) \<noteq> [] \<and>
    \<bar>total_limit (ledger (store s))\<bar> \<le> 9007199254740992 \<and>
    \<bar>total_limit (ledger (store s)) + a\<bar> \<le> 9007199254740992 \<longrightarrow>
      (\<exists>r s'. extendTokenLimit (Num a) (Num mx) s = (Inr r, s') \<and>
         previousLimit r = total_limit (ledger (store s)) \<and>
         newLimit r = total_limit (ledger (store s)) + a \<and>
         currentUsage r = total_tokens_used (ledger (store s)) \<and>
         total_limit (ledger (store s')) = total_limit (ledger (store s)) + a \<and>
         total_tokens_used (ledger (store s')) = total_tokens_used (ledger (store s)) \<and>
         chat_history (store s') = chat_history (store s))"
  proof
    assume h: "0 < a \<and> a \<le> mx \<and> handle s \<and> \<not> next_fault (faults s) \<and>
      \<not> next_fault (tl (faults s)) \<and> \<not> next_fault (tl (tl (faults s))) \<and>
      usage_stats (store s) \<noteq> [] \<and>
      \<bar>total_limit (ledger (store s))\<bar> \<le> 9007199254740992 \<and>
      \<bar>total_limit (ledger (store s)) + a\<bar> \<le> 9007199254740992"
    then obtain r rs where rows: "usage_stats (store s) = r # rs"
      by (cases "usage_stats (store s)") auto
    with h show "\<exists>r s'. extendTokenLimit (Num a) (Num mx) s = (Inr r, s') \<and>
         previousLimit r = total_limit (ledger (store s)) \<and>
         newLimit r = total_limit (ledger (store s)) + a \<and>
         currentUsage r = total_tokens_used (ledger (store s)) \<and>
         total_limit (ledger (store s')) = total_limit (ledger (store s)) + a \<and>
         total_tokens_used (ledger (store s')) = total_tokens_used (ledger (store s)) \<and>
         chat_history (store s') = chat_history (store s)"
      by (simp add: extendTokenLimit_open ledger_def)
  qed
  have c5: "amount message = NaN \<or> amount message = Num a \<and> a \<le> 0 \<longrightarrow>
      handleExtendLimit ws message addr cid s =
        (if send_throws ws then (Inl TransportFailure, s)
         else (Inr (), s\<lparr>wire := wire s @
                 [(ws_id ws, ExtendLimitResponseFailure InvalidAmountProvided cid)]\<rparr>))"
    by (auto simp add: handleExtendLimit_def Let_def ws_send_def)
  have c6: "amount message = Num a \<and> maxExtensionAmount < a \<longrightarrow>
      handleExtendLimit ws message addr cid s =
        (if send_throws ws then (Inl TransportFailure, s)
         else (Inr (), s\<lparr>wire := wire s @
                 [(ws_id ws, ExtendLimitResponseFailure
                               (AmountExceedsMaximum maxExtensionAmount) cid)]\<rparr>))"
    by (auto simp add: handleExtendLimit_def Let_def ws_send_def
          maxExtensionAmount_def)
  have c7: "amount message = Num a \<and> 0 < a \<and> a \<le> maxExtensionAmount \<and> handle s \<and>
    \<not> next_fault (faults s) \<and> \<not> next_fault (tl (faults s)) \<and>
    \<not> next_fault (tl (tl (faults s))) \<and> usage_stats (store s) \<noteq> [] \<and>
    \<bar>total_limit (ledger (store s))\<bar> \<le> 9007199254740992 \<and>
    \<bar>total_limit (ledger (store s)) + a\<bar> \<le> 9007199254740992 \<and> \<not> send_throws ws \<longrightarrow>
      (\<exists>s'. handleExtendLimit ws message addr cid s = (Inr (), s') \<and>
         hd (emitted s s') =
           (ws_id ws, ExtendLimitResponseSuccess a (total_limit (ledger (store s)))
                        (total_limit (ledger (store s)) + a)
                        (total_tokens_used (ledger (store s))) cid) \<and>
         total_limit (ledger (store s')) = total_limit (ledger (store s)) + a \<and>
         total_tokens_used (ledger (store s')) = total_tokens_used (ledger (store s)) \<and>
         chat_history (store s') = chat_history (store s))"
  proof
    assume h: "amount message = Num a \<and> 0 < a \<and> a \<le> maxExtensionAmount \<and> handle s \<and>
      \<not> next_fault (faults s) \<and> \<not> next_fault (tl (faults s)) \<and>
      \<not> next_fault (tl (tl (faults s))) \<and> usage_stats (store s) \<noteq> [] \<and>
      \<bar>total_limit (ledger (store s))\<bar> \<le> 9007199254740992 \<and>
      \<bar>total_limit (ledger (store s)) + a\<bar> \<le> 9007199254740992 \<and> \<not> send_throws ws"
    then obtain r rs where rows: "usage_stats (store s) = r # rs"
      by (cases "usage_stats (store s)") auto
    obtain rest where rest:
      "wire (snd (broadcastToOthers ws
             (Update \<lparr>totalTokensUsed = total_tokens_used r,
                      limit = total_limit r + a,
                      remaining = max 0 (total_limit r + a - total_tokens_used r),
                      exceeded = (total_tokens_used r \<ge> total_limit r + a)\<rparr>
                None (LimitExtendedBy cid a))
             (s\<lparr>store := (store s)\<lparr>usage_stats :=
                    map (\<lambda>r'. r'\<lparr>total_limit := total_limit r + a\<rparr>) (usage_stats (store s))\<rparr>,
                faults := tl (tl (tl (faults s))),
                wire := wire s @
                  [(ws_id ws, ExtendLimitResponseSuccess a (total_limit r) (total_limit r + a)
                                (total_tokens_used r) cid)]\<rparr>))) =
       wire (s\<lparr>store := (store s)\<lparr>usage_stats :=
                    map (\<lambda>r'. r'\<lparr>total_limit := total_limit r + a\<rparr>) (usage_stats (store s))\<rparr>,
                faults := tl (tl (tl (faults s))),
                wire := wire s @
                  [(ws_id ws, ExtendLimitResponseSuccess a (total_limit r) (total_limit r + a)
                                (total_tokens_used r) cid)]\<rparr>) @ rest"
      using wire_broadcastToOthers by blast
    from h rows have run:
      "handleExtendLimit ws message addr cid s =
       (Inr (),
        snd (broadcastToOthers ws
             (Update \<lparr>totalTokensUsed = total_tokens_used r,
                      limit = total_limit r + a,
                      remaining = max 0 (total_limit r + a - total_tokens_used r),
                      exceeded = (total_tokens_used r \<ge> total_limit r + a)\<rparr>
                None (LimitExtendedBy cid a))
             (s\<lparr>store := (store s)\<lparr>usage_stats :=
                    map (\<lambda>r'. r'\<lparr>total_limit := total_limit r + a\<rparr>) (usage_stats (store s))\<rparr>,
                faults := tl (tl (tl (faults s))),
                wire := wire s @
                  [(ws_id ws, ExtendLimitResponseSuccess a (total_limit r) (total_limit r + a)
                                (total_tokens_used r) cid)]\<rparr>)))"
      by (simp add: handleExtendLimit_open ledger_def)
    show "\<exists>s'. handleExtendLimit ws message addr cid s = (Inr (), s') \<and>
         hd (emitted s s') =
           (ws_id ws, ExtendLimitResponseSuccess a (total_limit (ledger (store s)))
                        (total_limit (ledger (store s)) + a)
                        (total_tokens_used (ledger (store s))) cid) \<and>
         total_limit (ledger (store s')) = total_limit (ledger (store s)) + a \<and>
         total_tokens_used (ledger (store s')) = total_tokens_used (ledger (store s)) \<and>
         chat_history (store s') = chat_history (store s)"
      unfolding run using rows rest
      by (simp add: emitted_def ledger_def broadcastToOthers_frame)
  qed
  show ?thesis
    by (rule conjI [OF c1 conjI [OF c2 conjI [OF c3 conjI [OF c4 conjI [OF c5 conjI [OF c6 c7]]]]]])
qed

theorem extend_rejects_before_mutation_witness:
  "extendTokenLimit (Num 0) (Num 20000) started_server =
     (Inl InvalidExtensionAmount, started_server) \<and>
   extendTokenLimit (Num (- 5)) (Num 20000) started_server =
     (Inl InvalidExtensionAmount, started_server) \<and>
   extendTokenLimit (Num 20001) (Num 20000) started_server =
     (Inl (ExtensionExceedsMaximum (Num 20000)), started_server) \<and>
   (\<exists>r s'. extendTokenLimit (Num 5000) (Num 20000) started_server = (Inr r, s') \<and>
      previousLimit r = 10000 \<and> newLimit r = 15000 \<and> currentUsage r = 0 \<and>
      total_limit (ledger (store s')) = 15000 \<and> total_tokens_used (ledger (store s')) = 0 \<and>
      chat_history (store s') = []) \<and>
   handleExtendLimit \<lparr>ws_id = 1, readyState = OPEN, send_throws = False\<rparr>
     \<lparr>msg_type = Some ''extendLimit'', amount = NaN\<rparr> ''::1'' ''A'' started_server =
     (Inr (), started_server
        \<lparr>wire := [(1, ExtendLimitResponseFailure InvalidAmountProvided ''A'')]\<rparr>) \<and>
   handleExtendLimit \<lparr>ws_id = 1, readyState = OPEN, send_throws = False\<rparr>
     \<lparr>msg_type = Some ''extendLimit'', amount = Num 0\<rparr> ''::1'' ''A'' started_server =
     (Inr (), started_server
        \<lparr>wire := [(1, ExtendLimitResponseFailure InvalidAmountProvided ''A'')]\<rparr>) \<and>
   handleExtendLimit \<lparr>ws_id = 1, readyState = OPEN, send_throws = False\<rparr>
     \<lparr>msg_type = Some ''extendLimit'', amount = Num 20001\<rparr> ''::1'' ''A'' started_server =
     (Inr (), started_server
        \<lparr>wire := [(1, ExtendLimitResponseFailure (AmountExceedsMaximum 20000) ''A'')]\<rparr>) \<and>
   (\<exists>s'. handleExtendLimit \<lparr>ws_id = 1, readyState = OPEN, send_throws = False\<rparr>
      \<lparr>msg_type = Some ''extendLimit'', amount = Num 5000\<rparr> ''::1'' ''A'' started_server =
      (Inr (), s') \<and>
      hd (emitted started_server s') =
        (1, ExtendLimitResponseSuccess 5000 10000 15000 0 ''A'') \<and>
      total_limit (ledger (store s')) = 15000 \<and> total_tokens_used (ledger (store s')) = 0 \<and>
      chat_history (store s') = [])"
  using extend_rejects_before_mutation
      [where a = 0 and mx = 20000 and s = started_server
         and ws = "\<lparr>ws_id = 1, readyState = OPEN, send_throws = False\<rparr>"
         and message = "\<lparr>msg_type = Some ''extendLimit'', amount = Num 0\<rparr>"
         and addr = "''::1''" and cid = "''A''"]
    extend_rejects_before_mutation
      [where a = "- 5" and mx = 20000 and s = started_server
         and ws = "\<lparr>ws_id = 1, readyState = OPEN, send_throws = False\<rparr>"
         and message = "\<lparr>msg_type = Some ''extendLimit'', amount = NaN\<rparr>"
         and addr = "''::1''" and cid = "''A''"]
    extend_rejects_before_mutation
      [where a = 20001 and mx = 20000 and s = started_server
         and ws = "\<lparr>ws_id = 1, readyState = OPEN, send_throws = False\<rparr>"
         and message = "\<lparr>msg_type = Some ''extendLimit'', amount = Num 20001\<rparr>"
         and addr = "''::1''" and cid = "''A''"]
    extend_rejects_before_mutation
      [where a = 5000 and mx = 20000 and s = started_server
         and ws = "\<lparr>ws_id = 1, readyState = OPEN, send_throws = False\<rparr>"
         and message = "\<lparr>msg_type = Some ''extendLimit'', amount = Num 5000\<rparr>"
         and addr = "''::1''" and cid = "''A''"]
  by (simp add: started_server_def ledger_def maxExtensionAmount_def)

subsection \<open>Clearing\<close>

lemma committed_broadcastToOthers:
  "committed (snd (broadcastToOthers ex msg s)) = committed s"
  by (simp add: committed_def broadcastToOthers_frame split: option.splits)

lemma bindE_assoc: "bindE (bindE m f) g = bindE m (\<lambda>x. bindE (f x) g)"
  by (rule ext) (simp add: bindE_def split: prod.splits sum.splits)

lemma bindE_returnE: "bindE (returnE x) f = f x"
  by (rule ext) (simp add: bindE_def returnE_def)

lemma committed_same: "txn s' = txn s \<Longrightarrow> store s' = store s \<Longrightarrow> committed s' = committed s"
  by (simp add: committed_def)

lemma clearing_accepted:
  assumes "clearing names cmp s = (Inr u, s')" and "cmp = (''token_comparisons'' \<in> set names)"
  shows "handle s' = handle s \<and> txn s = None \<and> txn s' = None \<and>
         store s' = cleared names (store s)"
  using assms
  by (auto simp add: clearing_def bindE_def returnE_def
      sql_begin_def sql_commit_def sql_def cleared_def
      delete_token_comparisons_def delete_chat_history_def update_tokens_used_zero_def
      delete_sequences_def
      split: if_splits)

lemma clearing_rejected:
  assumes "clearing names cmp s = (Inl e, s')"
  shows "handle s' = handle s \<and> committed s' = committed s"
  using assms
  by (auto simp add: clearing_def bindE_def returnE_def
      sql_begin_def sql_commit_def sql_def committed_def
      delete_token_comparisons_def delete_chat_history_def update_tokens_used_zero_def
      delete_sequences_def
      split: if_splits option.splits)

lemma recover_committed: "handle s \<Longrightarrow> committed (snd (recover s)) = committed s"
  by (simp add: recover_def catchE_def bindE_def getDb_open sql_rollback_def returnE_def
      committed_def split: option.splits)

lemma recover_returns: "fst (recover s) = Inr ()"
  by (simp add: recover_def catchE_def returnE_def split: prod.splits sum.splits)

lemma bindE_getDb_open: "handle s \<Longrightarrow> bindE getDb f s = f () s"
  by (simp add: bindE_def getDb_open)

lemma bindE_Inl: "m s = (Inl e, s') \<Longrightarrow> bindE m f s = (Inl e, s')"
  by (simp add: bindE_def)

lemma bindE_Inr: "m s = (Inr x, s') \<Longrightarrow> bindE m f s = f x s'"
  by (simp add: bindE_def)

lemma bindE_recover: "bindE recover f s = f () (snd (recover s))"
  using recover_returns [of s] by (cases "recover s") (simp add: bindE_def)

lemma clearDatabase_clearing:
  "clearDatabase =
     catchE (bindE getDb (\<lambda>_.
             bindE (clearing [''chat_history'', ''token_comparisons''] True) (\<lambda>_. returnE True)))
       (\<lambda>error. bindE recover (\<lambda>_. throwE error))"
  by (simp add: clearDatabase_def clearing_def recover_def bindE_assoc)

lemma handleClearDatabase_clearing:
  "handleClearDatabase ws clientIp clientId =
     catchE (bindE getDb (\<lambda>_.
             bindE (clearing [''chat_history''] False) (\<lambda>_.
             bindE getTokenUsage (\<lambda>usage.
             bindE (ws_send ws (ClearDatabaseResponseSuccess (cleared_usage usage) clientId)) (\<lambda>_.
             bindE (liftE (broadcastToOthers ws
                 (Update (cleared_usage usage) (Some []) (DatabaseClearedBy clientId)))) (\<lambda>_.
             returnE ()))))))
       (\<lambda>error. bindE recover (\<lambda>_.
          ws_send ws (ClearDatabaseResponseFailure error clientId)))"
  by (simp add: handleClearDatabase_def clearing_def recover_def bindE_assoc bindE_returnE
      cleared_usage_def)

lemma clearDatabase_outcome:
  assumes "handle s" and "clearDatabase s = (r, s')"
  shows "(r = Inr True \<and> txn s = None \<and> txn s' = None \<and> handle s' \<and>
          store s' = cleared [''chat_history'', ''token_comparisons''] (store s)) \<or>
         ((\<exists>e. r = Inl e) \<and> committed s' = committed s)"
proof (cases "clearing [''chat_history'', ''token_comparisons''] True s")
  case (Pair r1 s1)
  show ?thesis
  proof (cases r1)
    case (Inl e)
    with Pair have c: "clearing [''chat_history'', ''token_comparisons''] True s = (Inl e, s1)"
      by simp
    have "handle s1 \<and> committed s1 = committed s"
      using clearing_rejected [OF c] assms(1) by simp
    moreover have "clearDatabase s = (Inl e, snd (recover s1))"
      using Pair Inl assms(1)
      by (simp add: clearDatabase_clearing catchE_def bindE_getDb_open bindE_Inl bindE_recover
          throwE_def)
    ultimately show ?thesis
      using assms(2) by (auto simp add: recover_committed)
  next
    case (Inr u)
    with Pair have c: "clearing [''chat_history'', ''token_comparisons''] True s = (Inr u, s1)"
      by simp
    have "handle s1 = handle s \<and> txn s = None \<and> txn s1 = None \<and>
         store s1 = cleared [''chat_history'', ''token_comparisons''] (store s)"
      using clearing_accepted [OF c] by simp
    moreover have "clearDatabase s = (Inr True, s1)"
      using Pair Inr assms(1)
      by (simp add: clearDatabase_clearing catchE_def bindE_getDb_open bindE_Inr returnE_def)
    ultimately show ?thesis
      using assms by auto
  qed
qed

lemma committed_ws_send: "committed (snd (ws_send ws msg s)) = committed s"
  by (simp add: ws_send_def committed_def)

lemma handle_ws_send: "handle (snd (ws_send ws msg s)) = handle s"
  by (simp add: ws_send_def)

lemma after_getTokenUsage:
  "handle s \<Longrightarrow> committed (snd (getTokenUsage s)) = committed s \<and> handle (snd (getTokenUsage s))"
  by (cases "next_fault (faults s)")
     (simp_all add: getTokenUsage_open getTokenUsage_rejected committed_def)

lemma announce_committed:
  assumes "handle s"
  shows "committed (snd (bindE getTokenUsage (\<lambda>usage.
             bindE (ws_send ws (m1 usage)) (\<lambda>_.
             bindE (liftE (broadcastToOthers ws (m2 usage))) (\<lambda>_.
             returnE ()))) s)) = committed s \<and>
         handle (snd (bindE getTokenUsage (\<lambda>usage.
             bindE (ws_send ws (m1 usage)) (\<lambda>_.
             bindE (liftE (broadcastToOthers ws (m2 usage))) (\<lambda>_.
             returnE ()))) s))"
  using assms
  apply (cases "next_fault (faults s)")
   apply (simp_all add: bindE_def getTokenUsage_open getTokenUsage_rejected returnE_def
      liftE_pair ws_send_def broadcastToOthers_def fold_broadcast_other committed_def)
  done

lemma handleClearDatabase_outcome:
  assumes "handle s"
  shows "committed (snd (handleClearDatabase ws addr cid s)) = cleared [''chat_history''] (committed s) \<or>
         committed (snd (handleClearDatabase ws addr cid s)) = committed s"
proof (cases "clearing [''chat_history''] False s")
  case (Pair r1 s1)
  show ?thesis
  proof (cases r1)
    case (Inl e)
    with Pair have c: "clearing [''chat_history''] False s = (Inl e, s1)"
      by simp
    have s1: "handle s1 \<and> committed s1 = committed s"
      using clearing_rejected [OF c] assms by simp
    have "snd (handleClearDatabase ws addr cid s) =
          snd (ws_send ws (ClearDatabaseResponseFailure e cid) (snd (recover s1)))"
      using Pair Inl assms
      by (simp add: handleClearDatabase_clearing catchE_def bindE_getDb_open bindE_Inl
          bindE_recover)
    then show ?thesis
      using s1 by (simp add: committed_ws_send recover_committed)
  next
    case (Inr u)
    with Pair have c: "clearing [''chat_history''] False s = (Inr u, s1)"
      by simp
    have s1: "handle s1 = handle s \<and> txn s = None \<and> txn s1 = None \<and>
         store s1 = cleared [''chat_history''] (store s)"
      using clearing_accepted [OF c] by simp
    then have c1: "committed s1 = cleared [''chat_history''] (committed s)"
      by (simp add: committed_def)
    let ?announce = "bindE getTokenUsage (\<lambda>usage.
             bindE (ws_send ws (ClearDatabaseResponseSuccess (cleared_usage usage) cid)) (\<lambda>_.
             bindE (liftE (broadcastToOthers ws
                 (Update (cleared_usage usage) (Some []) (DatabaseClearedBy cid)))) (\<lambda>_.
             returnE ())))"
    have a: "committed (snd (?announce s1)) = committed s1 \<and> handle (snd (?announce s1))"
      using s1 assms
        announce_committed [of s1 ws "\<lambda>usage. ClearDatabaseResponseSuccess (cleared_usage usage) cid"
          "\<lambda>usage. Update (cleared_usage usage) (Some []) (DatabaseClearedBy cid)"]
      by simp
    show ?thesis
    proof (cases "?announce s1")
      case (Pair r2 s2)
      show ?thesis
      proof (cases r2)
        case (Inl e)
        with Pair \<open>clearing [''chat_history''] False s = (r1, s1)\<close> Inr
        have "snd (handleClearDatabase ws addr cid s) =
          snd (ws_send ws (ClearDatabaseResponseFailure e cid) (snd (recover s2)))"
          using assms
          by (simp add: handleClearDatabase_clearing catchE_def bindE_getDb_open bindE_Inl
              bindE_Inr bindE_recover)
        then show ?thesis
          using a c1 Pair by (simp add: committed_ws_send recover_committed)
      next
        case (Inr u2)
        with Pair \<open>clearing [''chat_history''] False s = (r1, s1)\<close> \<open>r1 = Inr u\<close>
        have "snd (handleClearDatabase ws addr cid s) = s2"
          using assms
          by (simp add: handleClearDatabase_clearing catchE_def bindE_getDb_open bindE_Inr)
        then show ?thesis
          using a c1 Pair by simp
      qed
    qed
  qed
qed

lemma map_of_filter_out:
  "k \<in> set names \<Longrightarrow> map_of (filter (\<lambda>p. fst p \<notin> set names) xs) k = None"
  by (induction xs) auto

lemma cleared_views:
  "chat_history (cleared names t) = [] \<and>
   total_tokens_used (ledger (cleared names t)) = 0 \<and>
   total_limit (ledger (cleared names t)) = total_limit (ledger t) \<and>
   (''chat_history'' \<in> set names \<longrightarrow> next_chat_id (cleared names t) = 1)"
  by (cases "usage_stats t")
     (simp_all add: cleared_def ledger_def next_chat_id_def sequence_of_def map_of_filter_out)

text \<open>
  A call of \<open>clearDatabase\<close> that runs alone, with the database open: when it returns,
  the history is empty, \<open>getRecentChats\<close> gives the empty list for every limit (unless the
  driver rejects the read), the next identifier is 1, the tokens used are 0, the limit is
  the one of before, and no transaction is open.  Whatever the driver rejects, the
  committed tables after it are either the cleared ones (and it returned \<open>true\<close>) or the
  ones of before (and it threw); the committed tables after a \<open>handleClearDatabase\<close> that
  runs alone are the cleared ones or the ones of before as well.
\<close>

lemma clear_database_alone:
  "(handle s \<and> clearDatabase s = (Inr b, s') \<longrightarrow>
      chat_history (store s') = [] \<and>
      fst (getRecentChats n s') = (if next_fault (faults s') then Inl StorageFailure else Inr []) \<and>
      next_chat_id (store s') = 1 \<and>
      total_tokens_used (ledger (store s')) = 0 \<and>
      total_limit (ledger (store s')) = total_limit (ledger (store s)) \<and>
      txn s' = None) \<and>
   (handle s \<and> clearDatabase s = (r, s') \<longrightarrow>
      (r = Inr True \<and>
       committed s' = cleared [''chat_history'', ''token_comparisons''] (committed s)) \<or>
      ((\<exists>e. r = Inl e) \<and> committed s' = committed s)) \<and>
   (handle s \<longrightarrow>
      committed (snd (handleClearDatabase ws addr cid s)) =
        cleared [''chat_history''] (committed s) \<or>
      committed (snd (handleClearDatabase ws addr cid s)) = committed s)"
proof -
  have a: "handle s \<and> clearDatabase s = (Inr b, s') \<longrightarrow>
      chat_history (store s') = [] \<and>
      fst (getRecentChats n s') = (if next_fault (faults s') then Inl StorageFailure else Inr []) \<and>
      next_chat_id (store s') = 1 \<and>
      total_tokens_used (ledger (store s')) = 0 \<and>
      total_limit (ledger (store s')) = total_limit (ledger (store s)) \<and>
      txn s' = None"
  proof
    assume h: "handle s \<and> clearDatabase s = (Inr b, s')"
    then have st: "txn s' = None \<and> handle s' \<and>
        store s' = cleared [''chat_history'', ''token_comparisons''] (store s)"
      using clearDatabase_outcome [of s "Inr b" s'] by auto
    then have "fst (getRecentChats n s') =
        (if next_fault (faults s') then Inl StorageFailure else Inr [])"
      by (simp add: getRecentChats_open getRecentChats_rejected select_recent_chats_def
          cleared_views)
    then show "chat_history (store s') = [] \<and>
        fst (getRecentChats n s') = (if next_fault (faults s') then Inl StorageFailure else Inr []) \<and>
        next_chat_id (store s') = 1 \<and>
        total_tokens_used (ledger (store s')) = 0 \<and>
        total_limit (ledger (store s')) = total_limit (ledger (store s)) \<and>
        txn s' = None"
      using st by (simp add: cleared_views)
  qed
  have b: "handle s \<and> clearDatabase s = (r, s') \<longrightarrow>
      (r = Inr True \<and>
       committed s' = cleared [''chat_history'', ''token_comparisons''] (committed s)) \<or>
      ((\<exists>e. r = Inl e) \<and> committed s' = committed s)"
    using clearDatabase_outcome [of s r s'] by (auto simp add: committed_def)
  have c: "handle s \<longrightarrow>
      committed (snd (handleClearDatabase ws addr cid s)) =
        cleared [''chat_history''] (committed s) \<or>
      committed (snd (handleClearDatabase ws addr cid s)) = committed s"
    using handleClearDatabase_outcome [of s ws addr cid] by simp
  show ?thesis
    by (rule conjI [OF a conjI [OF b c]])
qed

lemma clear_database_alone_example:
  "handle used_server \<and>
   clearDatabase used_server =
     (Inr True,
      used_server\<lparr>store := \<lparr>usage_stats = [\<lparr>total_tokens_used = 0, total_limit = 10000\<rparr>],
                            chat_history = [], token_comparisons = [],
                            sqlite_sequence = [(''usage_stats'', 1)]\<rparr>\<rparr>) \<and>
   fst (getRecentChats 20
      (used_server\<lparr>store := \<lparr>usage_stats = [\<lparr>total_tokens_used = 0, total_limit = 10000\<rparr>],
                            chat_history = [], token_comparisons = [],
                            sqlite_sequence = [(''usage_stats'', 1)]\<rparr>\<rparr>)) = Inr [] \<and>
   clearDatabase (used_server\<lparr>faults := [False, False, False, True]\<rparr>) =
     (Inl StorageFailure, used_server) \<and>
   committed used_server = store used_server \<and>
   committed (snd (handleClearDatabase \<lparr>ws_id = 1, readyState = OPEN, send_throws = False\<rparr>
                     ''::1'' ''A'' used_server)) =
     \<lparr>usage_stats = [\<lparr>total_tokens_used = 0, total_limit = 10000\<rparr>],
      chat_history = [], token_comparisons = [], sqlite_sequence = [(''usage_stats'', 1)]\<rparr> \<and>
   committed (snd (handleClearDatabase \<lparr>ws_id = 1, readyState = OPEN, send_throws = False\<rparr>
                     ''::1'' ''A'' (used_server\<lparr>faults := [False, False, True]\<rparr>))) =
     store used_server"
  by (simp add: used_server_def clearDatabase_def catchE_def bindE_def getDb_def returnE_def
      throwE_def sql_begin_def sql_commit_def sql_rollback_def sql_def committed_def
      delete_token_comparisons_def delete_chat_history_def update_tokens_used_zero_def
      delete_sequences_def cleared_def getRecentChats_def select_recent_chats_def
      handleClearDatabase_def getTokenUsage_def select_usage_stats_def ws_send_def liftE_pair
      broadcastToOthers_def)

subsection \<open>Two calls of \<open>clearDatabase\<close> in flight together\<close>

text \<open>
  The steps of \<open>clearDatabase\<close>, run alone from start to return, are the function.
\<close>

lemma run_step_alone:
  "run (0 # sched) [c] s = run sched [fst (step c s)] (snd (step c s))"
  by (simp split: prod.splits)

lemma run_clear_returned: "run sched [Clear_returned r] s = ([Clear_returned r], s)"
  by (induction sched) simp_all

lemma run_clear_failed:
  "run (0 # sched) [Clear_failed e] s =
     ([Clear_returned (Inl e)],
      snd (catchE (bindE getDb (\<lambda>_. sql_rollback)) (\<lambda>rollbackError. returnE ()) s))"
  by (simp add: run_clear_returned split: prod.splits)

lemma catchE_bindE:
  "catchE (bindE m f) h s =
     (case m s of (Inl e, s') \<Rightarrow> h e s' | (Inr x, s') \<Rightarrow> catchE (f x) h s')"
  by (simp add: catchE_def bindE_def split: prod.splits sum.splits)

lemma catchE_returnE: "catchE (returnE x) h s = (Inr x, s)"
  by (simp add: catchE_def returnE_def)

lemma rollback_and_rethrow:
  "bindE (catchE (bindE getDb (\<lambda>_. sql_rollback)) (\<lambda>rollbackError. returnE ())) (\<lambda>_. throwE e) s =
     (Inl e, snd (catchE (bindE getDb (\<lambda>_. sql_rollback)) (\<lambda>rollbackError. returnE ()) s))"
  by (simp add: bindE_def catchE_def returnE_def throwE_def split: prod.splits sum.splits)

lemma run_clear_sequences_deleted:
  "run (0 # 0 # sched) [Clear_sequences_deleted] s =
     ([Clear_returned (fst (catchE (bindE (sql_commit) (\<lambda>_. returnE True))
         (\<lambda>error. bindE (catchE (bindE getDb (\<lambda>_. sql_rollback)) (\<lambda>rollbackError. returnE ())) (\<lambda>_. throwE error)) s))],
      snd (catchE (bindE (sql_commit) (\<lambda>_. returnE True))
         (\<lambda>error. bindE (catchE (bindE getDb (\<lambda>_. sql_rollback)) (\<lambda>rollbackError. returnE ())) (\<lambda>_. throwE error)) s))"
proof (cases "(sql_commit) s")
  case (Pair r s1)
  show ?thesis
  proof (cases r)
    case (Inl e)
    with Pair show ?thesis
      by (simp only: run_step_alone [of _ Clear_sequences_deleted] step.simps catchE_bindE [of "sql_commit"])
         (simp add: run_clear_failed rollback_and_rethrow del: run.simps)
  next
    case (Inr u)
    with Pair show ?thesis
      by (simp only: run_step_alone [of _ Clear_sequences_deleted] step.simps catchE_bindE [of "sql_commit"])
         (simp add: run_clear_returned catchE_returnE del: run.simps)
  qed
qed

lemma run_clear_usage_reset:
  "run (0 # 0 # 0 # sched) [Clear_usage_reset] s =
     ([Clear_returned (fst (catchE (bindE (sql (delete_sequences [''chat_history'', ''token_comparisons''])) (\<lambda>_. bindE (sql_commit) (\<lambda>_. returnE True)))
         (\<lambda>error. bindE (catchE (bindE getDb (\<lambda>_. sql_rollback)) (\<lambda>rollbackError. returnE ())) (\<lambda>_. throwE error)) s))],
      snd (catchE (bindE (sql (delete_sequences [''chat_history'', ''token_comparisons''])) (\<lambda>_. bindE (sql_commit) (\<lambda>_. returnE True)))
         (\<lambda>error. bindE (catchE (bindE getDb (\<lambda>_. sql_rollback)) (\<lambda>rollbackError. returnE ())) (\<lambda>_. throwE error)) s))"
proof (cases "(sql (delete_sequences [''chat_history'', ''token_comparisons''])) s")
  case (Pair r s1)
  show ?thesis
  proof (cases r)
    case (Inl e)
    with Pair show ?thesis
      by (simp only: run_step_alone [of _ Clear_usage_reset] step.simps catchE_bindE [of "sql (delete_sequences [''chat_history'', ''token_comparisons''])"])
         (simp add: run_clear_failed rollback_and_rethrow del: run.simps)
  next
    case (Inr u)
    with Pair show ?thesis
      by (simp only: run_step_alone [of _ Clear_usage_reset] step.simps catchE_bindE [of "sql (delete_sequences [''chat_history'', ''token_comparisons''])"])
         (simp add: run_clear_sequences_deleted catchE_returnE del: run.simps)
  qed
qed

lemma run_clear_history_deleted:
  "run (0 # 0 # 0 # 0 # sched) [Clear_history_deleted] s =
     ([Clear_returned (fst (catchE (bindE (sql update_tokens_used_zero) (\<lambda>_. bindE (sql (delete_sequences [''chat_history'', ''token_comparisons''])) (\<lambda>_. bindE (sql_commit) (\<lambda>_. returnE True))))
         (\<lambda>error. bindE (catchE (bindE getDb (\<lambda>_. sql_rollback)) (\<lambda>rollbackError. returnE ())) (\<lambda>_. throwE error)) s))],
      snd (catchE (bindE (sql update_tokens_used_zero) (\<lambda>_. bindE (sql (delete_sequences [''chat_history'', ''token_comparisons''])) (\<lambda>_. bindE (sql_commit) (\<lambda>_. returnE True))))
         (\<lambda>error. bindE (catchE (bindE getDb (\<lambda>_. sql_rollback)) (\<lambda>rollbackError. returnE ())) (\<lambda>_. throwE error)) s))"
proof (cases "(sql update_tokens_used_zero) s")
  case (Pair r s1)
  show ?thesis
  proof (cases r)
    case (Inl e)
    with Pair show ?thesis
      by (simp only: run_step_alone [of _ Clear_history_deleted] step.simps catchE_bindE [of "sql update_tokens_used_zero"])
         (simp add: run_clear_failed rollback_and_rethrow del: run.simps)
  next
    case (Inr u)
    with Pair show ?thesis
      by (simp only: run_step_alone [of _ Clear_history_deleted] step.simps catchE_bindE [of "sql update_tokens_used_zero"])
         (simp add: run_clear_usage_reset catchE_returnE del: run.simps)
  qed
qed

lemma run_clear_comparisons_deleted:
  "run (0 # 0 # 0 # 0 # 0 # sched) [Clear_comparisons_deleted] s =
     ([Clear_returned (fst (catchE (bindE (sql delete_chat_history) (\<lambda>_. bindE (sql update_tokens_used_zero) (\<lambda>_. bindE (sql (delete_sequences [''chat_history'', ''token_comparisons''])) (\<lambda>_. bindE (sql_commit) (\<lambda>_. returnE True)))))
         (\<lambda>error. bindE (catchE (bindE getDb (\<lambda>_. sql_rollback)) (\<lambda>rollbackError. returnE ())) (\<lambda>_. throwE error)) s))],
      snd (catchE (bindE (sql delete_chat_history) (\<lambda>_. bindE (sql update_tokens_used_zero) (\<lambda>_. bindE (sql (delete_sequences [''chat_history'', ''token_comparisons''])) (\<lambda>_. bindE (sql_commit) (\<lambda>_. returnE True)))))
         (\<lambda>error. bindE (catchE (bindE getDb (\<lambda>_. sql_rollback)) (\<lambda>rollbackError. returnE ())) (\<lambda>_. throwE error)) s))"
proof (cases "(sql delete_chat_history) s")
  case (Pair r s1)
  show ?thesis
  proof (cases r)
    case (Inl e)
    with Pair show ?thesis
      by (simp only: run_step_alone [of _ Clear_comparisons_deleted] step.simps catchE_bindE [of "sql delete_chat_history"])
         (simp add: run_clear_failed rollback_and_rethrow del: run.simps)
  next
    case (Inr u)
    with Pair show ?thesis
      by (simp only: run_step_alone [of _ Clear_comparisons_deleted] step.simps catchE_bindE [of "sql delete_chat_history"])
         (simp add: run_clear_history_deleted catchE_returnE del: run.simps)
  qed
qed

lemma run_clear_begun:
  "run (0 # 0 # 0 # 0 # 0 # 0 # sched) [Clear_begun] s =
     ([Clear_returned (fst (catchE (bindE (sql delete_token_comparisons) (\<lambda>_. bindE (sql delete_chat_history) (\<lambda>_. bindE (sql update_tokens_used_zero) (\<lambda>_. bindE (sql (delete_sequences [''chat_history'', ''token_comparisons''])) (\<lambda>_. bindE (sql_commit) (\<lambda>_. returnE True))))))
         (\<lambda>error. bindE (catchE (bindE getDb (\<lambda>_. sql_rollback)) (\<lambda>rollbackError. returnE ())) (\<lambda>_. throwE error)) s))],
      snd (catchE (bindE (sql delete_token_comparisons) (\<lambda>_. bindE (sql delete_chat_history) (\<lambda>_. bindE (sql update_tokens_used_zero) (\<lambda>_. bindE (sql (delete_sequences [''chat_history'', ''token_comparisons''])) (\<lambda>_. bindE (sql_commit) (\<lambda>_. returnE True))))))
         (\<lambda>error. bindE (catchE (bindE getDb (\<lambda>_. sql_rollback)) (\<lambda>rollbackError. returnE ())) (\<lambda>_. throwE error)) s))"
proof (cases "(sql delete_token_comparisons) s")
  case (Pair r s1)
  show ?thesis
  proof (cases r)
    case (Inl e)
    with Pair show ?thesis
      by (simp only: run_step_alone [of _ Clear_begun] step.simps catchE_bindE [of "sql delete_token_comparisons"])
         (simp add: run_clear_failed rollback_and_rethrow del: run.simps)
  next
    case (Inr u)
    with Pair show ?thesis
      by (simp only: run_step_alone [of _ Clear_begun] step.simps catchE_bindE [of "sql delete_token_comparisons"])
         (simp add: run_clear_comparisons_deleted catchE_returnE del: run.simps)
  qed
qed

lemma run_clearDatabase:
  "run (0 # 0 # 0 # 0 # 0 # 0 # 0 # sched) [ClearDatabase] s =
     ([Clear_returned (fst (catchE (bindE (bindE getDb (\<lambda>_. sql_begin)) (\<lambda>_. bindE (sql delete_token_comparisons) (\<lambda>_. bindE (sql delete_chat_history) (\<lambda>_. bindE (sql update_tokens_used_zero) (\<lambda>_. bindE (sql (delete_sequences [''chat_history'', ''token_comparisons''])) (\<lambda>_. bindE (sql_commit) (\<lambda>_. returnE True)))))))
         (\<lambda>error. bindE (catchE (bindE getDb (\<lambda>_. sql_rollback)) (\<lambda>rollbackError. returnE ())) (\<lambda>_. throwE error)) s))],
      snd (catchE (bindE (bindE getDb (\<lambda>_. sql_begin)) (\<lambda>_. bindE (sql delete_token_comparisons) (\<lambda>_. bindE (sql delete_chat_history) (\<lambda>_. bindE (sql update_tokens_used_zero) (\<lambda>_. bindE (sql (delete_sequences [''chat_history'', ''token_comparisons''])) (\<lambda>_. bindE (sql_commit) (\<lambda>_. returnE True)))))))
         (\<lambda>error. bindE (catchE (bindE getDb (\<lambda>_. sql_rollback)) (\<lambda>rollbackError. returnE ())) (\<lambda>_. throwE error)) s))"
proof (cases "(bindE getDb (\<lambda>_. sql_begin)) s")
  case (Pair r s1)
  show ?thesis
  proof (cases r)
    case (Inl e)
    with Pair show ?thesis
      by (simp only: run_step_alone [of _ ClearDatabase] step.simps catchE_bindE [of "bindE getDb (\<lambda>_. sql_begin)"])
         (simp add: run_clear_failed rollback_and_rethrow del: run.simps)
  next
    case (Inr u)
    with Pair show ?thesis
      by (simp only: run_step_alone [of _ ClearDatabase] step.simps catchE_bindE [of "bindE getDb (\<lambda>_. sql_begin)"])
         (simp add: run_clear_begun catchE_returnE del: run.simps)
  qed
qed

lemma run_alone_clearDatabase:
  "run_alone ClearDatabase s = (Clear_returned (fst (clearDatabase s)), snd (clearDatabase s))"
  by (simp add: run_alone_def clearDatabase_def run_clearDatabase bindE_assoc del: run.simps)

text \<open>
  C4.  The deletions and the reset of \<open>clearDatabase\<close> do not commit as one unit when
  two calls are in flight together on the connection they share.  On a server with one
  entry in its history and 12000 tokens used: the first call opens its transaction and
  deletes from the two tables; the second call's \<open>BEGIN TRANSACTION\<close> is refused, since
  a transaction is open, and its \<open>ROLLBACK\<close> ends the transaction of the first and
  brings the history back; the first call then sets the tokens used to 0 and deletes the
  entry of \<open>sqlite_sequence\<close> outside any transaction, and its \<open>COMMIT\<close> and its
  \<open>ROLLBACK\<close> are refused.  Both calls throw; no transaction is open; the tokens used
  are 0 and the history is the one of before.  The same two calls one after the other
  both return \<open>true\<close> and leave the history empty and the tokens used at 0.
\<close>

theorem overlapping_clears_reset_without_truncation:
  "run [0, 0, 0, 1, 1, 0, 0, 0, 0] [ClearDatabase, ClearDatabase] used_server =
     ([Clear_returned (Inl StorageFailure), Clear_returned (Inl StorageFailure)],
      used_server\<lparr>store := (store used_server)
         \<lparr>usage_stats := [\<lparr>total_tokens_used = 0, total_limit = 10000\<rparr>],
          sqlite_sequence := [(''usage_stats'', 1)]\<rparr>\<rparr>) \<and>
   txn (snd (run [0, 0, 0, 1, 1, 0, 0, 0, 0] [ClearDatabase, ClearDatabase] used_server)) =
     None \<and>
   total_tokens_used (ledger (store (snd (run [0, 0, 0, 1, 1, 0, 0, 0, 0]
     [ClearDatabase, ClearDatabase] used_server)))) = 0 \<and>
   length (chat_history (store (snd (run [0, 0, 0, 1, 1, 0, 0, 0, 0]
     [ClearDatabase, ClearDatabase] used_server)))) = 1 \<and>
   total_tokens_used (ledger (store used_server)) = 12000 \<and>
   run [0, 0, 0, 0, 0, 0, 0, 1, 1, 1, 1, 1, 1, 1] [ClearDatabase, ClearDatabase] used_server =
     ([Clear_returned (Inr True), Clear_returned (Inr True)],
      used_server\<lparr>store := cleared [''chat_history'', ''token_comparisons'']
                              (store used_server)\<rparr>)"
  by (simp add: used_server_def ledger_def cleared_def bindE_def catchE_def getDb_def
      returnE_def sql_def sql_begin_def sql_commit_def sql_rollback_def
      delete_token_comparisons_def delete_chat_history_def update_tokens_used_zero_def
      delete_sequences_def)

subsection \<open>The commit of a streamed answer\<close>

lemma addChatEntry_insert_rejected:
  "handle s \<Longrightarrow> next_fault (faults s) \<Longrightarrow>
   addChatEntry p t g m opts s = (Inl StorageFailure, s\<lparr>faults := tl (faults s)\<rparr>)"
  by (simp add: addChatEntry_def getDb_open Let_def bindE_def sql_rejected)

lemma addChatEntry_update_rejected:
  "handle s \<Longrightarrow> \<not> next_fault (faults s) \<Longrightarrow> next_fault (tl (faults s)) \<Longrightarrow>
   addChatEntry p t g m opts s =
     (Inl StorageFailure,
      s\<lparr>store := (store s)\<lparr>
           chat_history := chat_history (store s) @ [committed_entry s p t g m opts],
           sqlite_sequence := (''chat_history'', next_chat_id (store s)) #
              filter (\<lambda>p. fst p \<noteq> ''chat_history'') (sqlite_sequence (store s))\<rparr>,
        faults := tl (tl (faults s))\<rparr>)"
  by (simp add: addChatEntry_def getDb_open Let_def bindE_def sql_accepted sql_rejected
      insert_chat_history_def committed_entry_def)

lemma stream_commit_insert_rejected:
  "handle s \<Longrightarrow> next_fault (faults s) \<Longrightarrow>
   stream_commit json p m opts t final s = (Inl StorageFailure, s\<lparr>faults := tl (faults s)\<rparr>)"
  by (simp add: stream_commit_def Let_def bindE_Inl addChatEntry_insert_rejected)

lemma stream_commit_update_rejected:
  "handle s \<Longrightarrow> \<not> next_fault (faults s) \<Longrightarrow> next_fault (tl (faults s)) \<Longrightarrow>
   stream_commit json p m opts t final s =
     (Inl StorageFailure,
      s\<lparr>store := (store s)\<lparr>
           chat_history := chat_history (store s) @
              [committed_entry s p t (extractGeminiTokenCount final) m opts],
           sqlite_sequence := (''chat_history'', next_chat_id (store s)) #
              filter (\<lambda>p. fst p \<noteq> ''chat_history'') (sqlite_sequence (store s))\<rparr>,
        faults := tl (tl (faults s))\<rparr>)"
  by (simp add: stream_commit_def Let_def bindE_Inl addChatEntry_update_rejected)

lemma handleStreamingChat_insert_rejected:
  assumes "handle s" and "next_fault (faults s)" and "body_message body \<noteq> []"
  shows "handleStreamingChat body (Generated chunks final) s =
     (StreamResponse
        \<lparr>enqueued = snd (fold (stream_chunk (format_is_json body)) chunks ([], [])) @
            (if format_is_json body then [JsonError StorageFailure] else []),
         ended = StreamErrored StorageFailure\<rparr>,
      s\<lparr>faults := tl (faults s)\<rparr>)"
  using assms
  by (simp add: handleStreamingChat_def Let_def stream_commit_insert_rejected
      split: prod.splits)

lemma handleStreamingChat_update_rejected:
  assumes "handle s" and "\<not> next_fault (faults s)" and "next_fault (tl (faults s))"
    and "body_message body \<noteq> []"
  shows "handleStreamingChat body (Generated chunks final) s =
     (StreamResponse
        \<lparr>enqueued = snd (fold (stream_chunk (format_is_json body)) chunks ([], [])) @
            (if format_is_json body then [JsonError StorageFailure] else []),
         ended = StreamErrored StorageFailure\<rparr>,
      s\<lparr>store := (store s)\<lparr>
           chat_history := chat_history (store s) @
              [committed_entry s (body_message body) (concat chunks)
                 (extractGeminiTokenCount final) (modelName_of body) (options_of body)],
           sqlite_sequence := (''chat_history'', next_chat_id (store s)) #
              filter (\<lambda>p. fst p \<noteq> ''chat_history'') (sqlite_sequence (store s))\<rparr>,
        faults := tl (tl (faults s))\<rparr>)"
  using assms
  by (simp add: handleStreamingChat_def Let_def stream_commit_update_rejected fold_stream_chunk)

lemma filter_same_key:
  "distinct (map f xs) \<Longrightarrow> x \<in> set xs \<Longrightarrow> filter (\<lambda>y. f y = f x) xs = [x]"
proof (induction xs)
  case Nil
  then show ?case by simp
next
  case (Cons y ys)
  show ?case
  proof (cases "x = y")
    case True
    have "filter (\<lambda>z. f z = f y) ys = []"
      using Cons.prems(1) by (force simp add: filter_empty_conv image_iff)
    with True show ?thesis by simp
  next
    case False
    with Cons.prems have "x \<in> set ys" and "f y \<noteq> f x"
      by auto
    with Cons show ?thesis by simp
  qed
qed

lemma emitted_broadcastToAll:
  "emitted s (snd (broadcastToAll msg s)) =
     map (\<lambda>e. (ws_id (fst e), msg))
       (filter (\<lambda>e. readyState (fst e) = OPEN \<and> \<not> send_throws (fst e)) (wsClients s))"
  by (simp add: emitted_def broadcastToAll_wire)

lemma wsClients_broadcastToAll:
  assumes "distinct (map (\<lambda>e. ws_id (fst e)) (wsClients s))"
  shows "wsClients (snd (broadcastToAll msg s)) =
     filter (\<lambda>e. readyState (fst e) \<noteq> CLOSED \<and> readyState (fst e) \<noteq> CLOSING) (wsClients s)"
proof (cases "filter (\<lambda>e. readyState (fst e) = CLOSED \<or> readyState (fst e) = CLOSING)
                (wsClients s) = []")
  case True
  then have "\<forall>e \<in> set (wsClients s). readyState (fst e) \<noteq> CLOSED \<and> readyState (fst e) \<noteq> CLOSING"
    by (simp add: filter_empty_conv)
  then have "filter (\<lambda>e. readyState (fst e) \<noteq> CLOSED \<and> readyState (fst e) \<noteq> CLOSING)
               (wsClients s) = wsClients s"
    by (simp add: filter_id_conv)
  with True show ?thesis
    by (simp add: broadcastToAll_def fold_broadcast_each)
next
  case False
  have inj: "inj_on (\<lambda>e. ws_id (fst e)) (set (wsClients s))"
    using assms by (simp add: distinct_map)
  have "filter (\<lambda>e. ws_id (fst e) \<notin> ws_id ` fst ` {e \<in> set (wsClients s).
                     readyState (fst e) = CLOSED \<or> readyState (fst e) = CLOSING})
          (wsClients s) =
        filter (\<lambda>e. readyState (fst e) \<noteq> CLOSED \<and> readyState (fst e) \<noteq> CLOSING) (wsClients s)"
  proof (rule filter_cong [OF refl])
    fix e assume e: "e \<in> set (wsClients s)"
    show "(ws_id (fst e) \<notin> ws_id ` fst ` {e \<in> set (wsClients s).
                     readyState (fst e) = CLOSED \<or> readyState (fst e) = CLOSING}) =
          (readyState (fst e) \<noteq> CLOSED \<and> readyState (fst e) \<noteq> CLOSING)"
    proof
      assume "ws_id (fst e) \<notin> ws_id ` fst ` {e \<in> set (wsClients s).
                     readyState (fst e) = CLOSED \<or> readyState (fst e) = CLOSING}"
      with e show "readyState (fst e) \<noteq> CLOSED \<and> readyState (fst e) \<noteq> CLOSING"
        by force
    next
      assume open_e: "readyState (fst e) \<noteq> CLOSED \<and> readyState (fst e) \<noteq> CLOSING"
      show "ws_id (fst e) \<notin> ws_id ` fst ` {e \<in> set (wsClients s).
                     readyState (fst e) = CLOSED \<or> readyState (fst e) = CLOSING}"
      proof
        assume "ws_id (fst e) \<in> ws_id ` fst ` {e \<in> set (wsClients s).
                     readyState (fst e) = CLOSED \<or> readyState (fst e) = CLOSING}"
        then obtain e' where e': "e' \<in> set (wsClients s)"
          "readyState (fst e') = CLOSED \<or> readyState (fst e') = CLOSING"
          "ws_id (fst e) = ws_id (fst e')"
          by auto
        with inj e have "e = e'"
          by (auto dest: inj_onD)
        with e' open_e show False by simp
      qed
    qed
  qed
  with False show ?thesis
    by (simp add: broadcastToAll_def fold_broadcast_each cleanupClosedConnections_state)
qed

lemma wire_handleStreamingChat:
  assumes "handle s" and "\<not> next_fault (faults s)" and "\<not> next_fault (tl (faults s))"
    and "\<not> next_fault (tl (tl (faults s)))" and "\<not> next_fault (tl (tl (tl (faults s))))"
    and "\<not> next_fault (tl (tl (tl (tl (faults s)))))"
    and "body_message body \<noteq> []" and "wsClients s \<noteq> []"
  shows "map fst (emitted s (snd (handleStreamingChat body (Generated chunks final) s))) =
     map (\<lambda>e. ws_id (fst e))
       (filter (\<lambda>e. readyState (fst e) = OPEN \<and> \<not> send_throws (fst e)) (wsClients s))"
  using assms
  by (simp add: handleStreamingChat_def Let_def fold_stream_chunk stream_commit_def
      bindE_def returnE_def addChatEntry_open getTokenUsage_open broadcastUpdate_def
      catchE_def getRecentChats_open liftE_pair broadcastToAll_wire emitted_def comp_def)

text \<open>
  C5.  A completed generation handled by \<open>handleStreamingChat\<close> with the database open
  and a message in the request.  When the driver rejects the \<open>INSERT\<close>, the tables, the
  open transaction, the registry and the wire are as before and the stream ends in the
  error.  When it accepts the \<open>INSERT\<close> and rejects the \<open>UPDATE\<close>, the history has one more
  row, the usage rows are as before, nothing was sent and the stream ends in the error.
  When it accepts both, the history has one more row and every usage row has grown by
  exactly the count that row holds.  And nothing reaches the wire unless both were
  accepted: the append comes first, the increment second, the broadcast last.
\<close>

theorem append_before_increment_before_broadcast:
  "(handle s \<and> body_message body \<noteq> [] \<and> next_fault (faults s) \<longrightarrow>
      store (snd (handleStreamingChat body (Generated chunks final) s)) = store s \<and>
      txn (snd (handleStreamingChat body (Generated chunks final) s)) = txn s \<and>
      wsClients (snd (handleStreamingChat body (Generated chunks final) s)) = wsClients s \<and>
      wire (snd (handleStreamingChat body (Generated chunks final) s)) = wire s \<and>
      (\<exists>items. fst (handleStreamingChat body (Generated chunks final) s) =
         StreamResponse \<lparr>enqueued = items, ended = StreamErrored StorageFailure\<rparr>)) \<and>
   (handle s \<and> body_message body \<noteq> [] \<and> \<not> next_fault (faults s) \<and>
    next_fault (tl (faults s)) \<longrightarrow>
      (\<exists>e. chat_history (store (snd (handleStreamingChat body (Generated chunks final) s))) =
            chat_history (store s) @ [e]) \<and>
      usage_stats (store (snd (handleStreamingChat body (Generated chunks final) s))) =
        usage_stats (store s) \<and>
      wire (snd (handleStreamingChat body (Generated chunks final) s)) = wire s \<and>
      (\<exists>items. fst (handleStreamingChat body (Generated chunks final) s) =
         StreamResponse \<lparr>enqueued = items, ended = StreamErrored StorageFailure\<rparr>)) \<and>
   (handle s \<and> body_message body \<noteq> [] \<and> \<not> next_fault (faults s) \<and>
    \<not> next_fault (tl (faults s)) \<longrightarrow>
      (\<exists>e. chat_history (store (snd (handleStreamingChat body (Generated chunks final) s))) =
            chat_history (store s) @ [e] \<and>
          usage_stats (store (snd (handleStreamingChat body (Generated chunks final) s))) =
            map (\<lambda>r. r\<lparr>total_tokens_used := total_tokens_used r + gemini_token_count e\<rparr>)
              (usage_stats (store s)))) \<and>
   (handle s \<and> body_message body \<noteq> [] \<and>
    wire (snd (handleStreamingChat body (Generated chunks final) s)) \<noteq> wire s \<longrightarrow>
      (\<exists>e. chat_history (store (snd (handleStreamingChat body (Generated chunks final) s))) =
            chat_history (store s) @ [e] \<and>
          usage_stats (store (snd (handleStreamingChat body (Generated chunks final) s))) =
            map (\<lambda>r. r\<lparr>total_tokens_used := total_tokens_used r + gemini_token_count e\<rparr>)
              (usage_stats (store s))))"
proof -
  let ?run = "handleStreamingChat body (Generated chunks final) s"
  have a: "handle s \<and> body_message body \<noteq> [] \<and> next_fault (faults s) \<longrightarrow>
      store (snd ?run) = store s \<and> txn (snd ?run) = txn s \<and>
      wsClients (snd ?run) = wsClients s \<and> wire (snd ?run) = wire s \<and>
      (\<exists>items. fst ?run =
         StreamResponse \<lparr>enqueued = items, ended = StreamErrored StorageFailure\<rparr>)"
    by (simp add: handleStreamingChat_insert_rejected)
  have b: "handle s \<and> body_message body \<noteq> [] \<and> \<not> next_fault (faults s) \<and>
    next_fault (tl (faults s)) \<longrightarrow>
      (\<exists>e. chat_history (store (snd ?run)) = chat_history (store s) @ [e]) \<and>
      usage_stats (store (snd ?run)) = usage_stats (store s) \<and>
      wire (snd ?run) = wire s \<and>
      (\<exists>items. fst ?run =
         StreamResponse \<lparr>enqueued = items, ended = StreamErrored StorageFailure\<rparr>)"
    by (simp add: handleStreamingChat_update_rejected)
  have c: "handle s \<and> body_message body \<noteq> [] \<and> \<not> next_fault (faults s) \<and>
    \<not> next_fault (tl (faults s)) \<longrightarrow>
      (\<exists>e. chat_history (store (snd ?run)) = chat_history (store s) @ [e] \<and>
          usage_stats (store (snd ?run)) =
            map (\<lambda>r. r\<lparr>total_tokens_used := total_tokens_used r + gemini_token_count e\<rparr>)
              (usage_stats (store s)))"
    by (simp add: store_handleStreamingChat after_commit_def committed_entry_def)
  have d: "handle s \<and> body_message body \<noteq> [] \<and> wire (snd ?run) \<noteq> wire s \<longrightarrow>
      (\<exists>e. chat_history (store (snd ?run)) = chat_history (store s) @ [e] \<and>
          usage_stats (store (snd ?run)) =
            map (\<lambda>r. r\<lparr>total_tokens_used := total_tokens_used r + gemini_token_count e\<rparr>)
              (usage_stats (store s)))"
    using a b c by blast
  show ?thesis
    by (rule conjI [OF a conjI [OF b conjI [OF c d]]])
qed

theorem append_before_increment_before_broadcast_witness:
  "handle busy_server \<and>
   store (snd (handleStreamingChat
      \<lparr>body_message = ''hi'', body_model = None, body_options = None, body_format = None\<rparr>
      (Generated [''hello''] None) (busy_server\<lparr>faults := [True]\<rparr>))) = store busy_server \<and>
   wire (snd (handleStreamingChat
      \<lparr>body_message = ''hi'', body_model = None, body_options = None, body_format = None\<rparr>
      (Generated [''hello''] None) (busy_server\<lparr>faults := [True]\<rparr>))) = [] \<and>
   fst (handleStreamingChat
      \<lparr>body_message = ''hi'', body_model = None, body_options = None, body_format = None\<rparr>
      (Generated [''hello''] None) (busy_server\<lparr>faults := [True]\<rparr>)) =
     StreamResponse \<lparr>enqueued = [JsonChunk ''hello'', JsonError StorageFailure],
                     ended = StreamErrored StorageFailure\<rparr> \<and>
   map gemini_token_count (chat_history (store (snd (handleStreamingChat
      \<lparr>body_message = ''hi'', body_model = None, body_options = None, body_format = None\<rparr>
      (Generated [''hello''] None) (busy_server\<lparr>faults := [False, True]\<rparr>))))) = [12000, 2] \<and>
   map total_tokens_used (usage_stats (store (snd (handleStreamingChat
      \<lparr>body_message = ''hi'', body_model = None, body_options = None, body_format = None\<rparr>
      (Generated [''hello''] None) (busy_server\<lparr>faults := [False, True]\<rparr>))))) = [12000] \<and>
   map gemini_token_count (chat_history (store (snd (handleStreamingChat
      \<lparr>body_message = ''hi'', body_model = None, body_options = None, body_format = None\<rparr>
      (Generated [''hello''] None) busy_server)))) = [12000, 2] \<and>
   map total_tokens_used (usage_stats (store (snd (handleStreamingChat
      \<lparr>body_message = ''hi'', body_model = None, body_options = None, body_format = None\<rparr>
      (Generated [''hello''] None) busy_server)))) = [12002] \<and>
   map fst (wire (snd (handleStreamingChat
      \<lparr>body_message = ''hi'', body_model = None, body_options = None, body_format = None\<rparr>
      (Generated [''hello''] None) busy_server))) = [1, 3]"
  using append_before_increment_before_broadcast
    [where s = "busy_server\<lparr>faults := [True]\<rparr>"
       and body = "\<lparr>body_message = ''hi'', body_model = None, body_options = None,
                    body_format = None\<rparr>"
       and chunks = "[''hello'']" and final = None]
    append_before_increment_before_broadcast
    [where s = "busy_server\<lparr>faults := [False, True]\<rparr>"
       and body = "\<lparr>body_message = ''hi'', body_model = None, body_options = None,
                    body_format = None\<rparr>"
       and chunks = "[''hello'']" and final = None]
    append_before_increment_before_broadcast
    [where s = busy_server
       and body = "\<lparr>body_message = ''hi'', body_model = None, body_options = None,
                    body_format = None\<rparr>"
       and chunks = "[''hello'']" and final = None]
    wire_handleStreamingChat
    [where s = busy_server
       and body = "\<lparr>body_message = ''hi'', body_model = None, body_options = None,
                    body_format = None\<rparr>"
       and chunks = "[''hello'']" and final = None]
  by (simp add: busy_server_def used_server_def three_clients_def
      handleStreamingChat_insert_rejected handleStreamingChat_update_rejected
      store_handleStreamingChat after_commit_def committed_entry_def fold_stream_chunk
      format_is_json_def extractGeminiTokenCount_def simpleTokenEstimate_div emitted_def
      stream_chunk_def)

subsection \<open>The broadcast\<close>

text \<open>
  C7.  \<open>broadcastToAll\<close> on a registry whose sockets are distinct.  Each registered
  client gets the message once if its socket is open and \<open>send\<close> does not throw, and
  not at all otherwise, whatever the other sockets do; everything put on the wire is
  the message, to an open registered socket; the registry afterwards is the one of
  before without the closed and closing sockets; the counts returned are those of the
  messages sent and of the closed sockets met; the tables are untouched.
\<close>

theorem notify_all_reaches_each_open_once:
  "distinct (map (\<lambda>e. ws_id (fst e)) (wsClients s)) \<longrightarrow>
   (\<forall>e \<in> set (wsClients s).
      length (filter (\<lambda>d. fst d = ws_id (fst e)) (emitted s (snd (broadcastToAll msg s)))) =
        (if readyState (fst e) = OPEN \<and> \<not> send_throws (fst e) then 1 else 0)) \<and>
   (\<forall>d \<in> set (emitted s (snd (broadcastToAll msg s))).
      snd d = msg \<and>
      (\<exists>e \<in> set (wsClients s). ws_id (fst e) = fst d \<and> readyState (fst e) = OPEN)) \<and>
   wsClients (snd (broadcastToAll msg s)) =
     filter (\<lambda>e. readyState (fst e) \<noteq> CLOSED \<and> readyState (fst e) \<noteq> CLOSING) (wsClients s) \<and>
   sent (fst (broadcastToAll msg s)) =
     length (filter (\<lambda>e. readyState (fst e) = OPEN \<and> \<not> send_throws (fst e)) (wsClients s)) \<and>
   closed (fst (broadcastToAll msg s)) =
     length (filter (\<lambda>e. readyState (fst e) = CLOSED \<or> readyState (fst e) = CLOSING)
               (wsClients s)) \<and>
   store (snd (broadcastToAll msg s)) = store s"
proof
  assume d: "distinct (map (\<lambda>e. ws_id (fst e)) (wsClients s))"
  have once: "\<forall>e \<in> set (wsClients s).
      length (filter (\<lambda>d. fst d = ws_id (fst e)) (emitted s (snd (broadcastToAll msg s)))) =
        (if readyState (fst e) = OPEN \<and> \<not> send_throws (fst e) then 1 else 0)"
  proof
    fix e assume e: "e \<in> set (wsClients s)"
    have "filter (\<lambda>d. fst d = ws_id (fst e)) (emitted s (snd (broadcastToAll msg s))) =
          map (\<lambda>e. (ws_id (fst e), msg))
            (filter (\<lambda>e. readyState (fst e) = OPEN \<and> \<not> send_throws (fst e))
               (filter (\<lambda>y. ws_id (fst y) = ws_id (fst e)) (wsClients s)))"
      by (simp add: emitted_broadcastToAll filter_map comp_def conj_commute)
    also have "filter (\<lambda>y. ws_id (fst y) = ws_id (fst e)) (wsClients s) = [e]"
      using filter_same_key [OF d e] by simp
    finally show "length (filter (\<lambda>d. fst d = ws_id (fst e))
                    (emitted s (snd (broadcastToAll msg s)))) =
        (if readyState (fst e) = OPEN \<and> \<not> send_throws (fst e) then 1 else 0)"
      by simp
  qed
  have only: "\<forall>d \<in> set (emitted s (snd (broadcastToAll msg s))).
      snd d = msg \<and>
      (\<exists>e \<in> set (wsClients s). ws_id (fst e) = fst d \<and> readyState (fst e) = OPEN)"
    by (force simp add: emitted_broadcastToAll)
  have counts: "sent (fst (broadcastToAll msg s)) =
     length (filter (\<lambda>e. readyState (fst e) = OPEN \<and> \<not> send_throws (fst e)) (wsClients s)) \<and>
   closed (fst (broadcastToAll msg s)) =
     length (filter (\<lambda>e. readyState (fst e) = CLOSED \<or> readyState (fst e) = CLOSING)
               (wsClients s))"
    by (simp add: broadcastToAll_def fold_broadcast_each)
  show "(\<forall>e \<in> set (wsClients s).
      length (filter (\<lambda>d. fst d = ws_id (fst e)) (emitted s (snd (broadcastToAll msg s)))) =
        (if readyState (fst e) = OPEN \<and> \<not> send_throws (fst e) then 1 else 0)) \<and>
   (\<forall>d \<in> set (emitted s (snd (broadcastToAll msg s))).
      snd d = msg \<and>
      (\<exists>e \<in> set (wsClients s). ws_id (fst e) = fst d \<and> readyState (fst e) = OPEN)) \<and>
   wsClients (snd (broadcastToAll msg s)) =
     filter (\<lambda>e. readyState (fst e) \<noteq> CLOSED \<and> readyState (fst e) \<noteq> CLOSING) (wsClients s) \<and>
   sent (fst (broadcastToAll msg s)) =
     length (filter (\<lambda>e. readyState (fst e) = OPEN \<and> \<not> send_throws (fst e)) (wsClients s)) \<and>
   closed (fst (broadcastToAll msg s)) =
     length (filter (\<lambda>e. readyState (fst e) = CLOSED \<or> readyState (fst e) = CLOSING)
               (wsClients s)) \<and>
   store (snd (broadcastToAll msg s)) = store s"
    using once only counts wsClients_broadcastToAll [OF d] broadcastToAll_frame [of msg s]
    by simp
qed

theorem notify_all_reaches_each_open_once_witness:
  "distinct (map (\<lambda>e. ws_id (fst e)) (wsClients busy_server)) \<and>
   emitted busy_server (snd (broadcastToAll (Pong ''x'') busy_server)) =
     [(1, Pong ''x''), (3, Pong ''x'')] \<and>
   map (\<lambda>e. client_id (snd e)) (wsClients (snd (broadcastToAll (Pong ''x'') busy_server))) =
     [''A'', ''C''] \<and>
   sent (fst (broadcastToAll (Pong ''x'') busy_server)) = 2 \<and>
   closed (fst (broadcastToAll (Pong ''x'') busy_server)) = 1"
  using notify_all_reaches_each_open_once [where s = busy_server and msg = "Pong ''x''"]
  by (simp add: busy_server_def used_server_def three_clients_def emitted_broadcastToAll)

subsection \<open>The dispatch\<close>

text \<open>
  A message whose fields can be read and whose \<open>type\<close> is none of the five that
  \<open>handleMessage\<close> knows (\<open>requestUpdate\<close>, \<open>extendLimit\<close>, \<open>clearDatabase\<close>, \<open>ping\<close>,
  \<open>getClients\<close>): the handler sends the sender one message tagged \<open>error\<close>,
  \<open>Unknown message type\<close>, and changes nothing else: the tables, the transaction and the
  registry are as before.  If \<open>send\<close> itself throws, the handler fails with that error.
\<close>

lemma unknown_type_of_object_answers_error:
  "msg_type message \<noteq> Some ''requestUpdate'' \<and> msg_type message \<noteq> Some ''extendLimit'' \<and>
   msg_type message \<noteq> Some ''clearDatabase'' \<and> msg_type message \<noteq> Some ''ping'' \<and>
   msg_type message \<noteq> Some ''getClients'' \<longrightarrow>
   handleMessage ws (Some message) addr cid s =
     (if send_throws ws then (Inl TransportFailure, s)
      else (Inr (), s\<lparr>wire := wire s @ [(ws_id ws, ErrorMessage ''Unknown message type'' None)]\<rparr>)) \<and>
   store (snd (handleMessage ws (Some message) addr cid s)) = store s \<and>
   txn (snd (handleMessage ws (Some message) addr cid s)) = txn s \<and>
   wsClients (snd (handleMessage ws (Some message) addr cid s)) = wsClients s"
  by (simp add: handleMessage_def ws_send_def)

lemma unknown_type_of_object_example:
  "handleMessage \<lparr>ws_id = 1, readyState = OPEN, send_throws = False\<rparr>
     (Some \<lparr>msg_type = Some ''clear-history'', amount = NaN\<rparr>) ''::1'' ''A'' busy_server =
     (Inr (), busy_server\<lparr>wire := [(1, ErrorMessage ''Unknown message type'' None)]\<rparr>) \<and>
   handleMessage \<lparr>ws_id = 1, readyState = OPEN, send_throws = False\<rparr>
     (Some \<lparr>msg_type = None, amount = NaN\<rparr>) ''::1'' ''A'' busy_server =
     (Inr (), busy_server\<lparr>wire := [(1, ErrorMessage ''Unknown message type'' None)]\<rparr>)"
  by (simp add: handleMessage_def ws_send_def busy_server_def used_server_def)

text \<open>
  A \<open>getClients\<close> message is answered with a message tagged \<open>error\<close>,
  \<open>Failed to retrieve client list\<close>: the \<open>require\<close> of the handler throws.
\<close>

lemma handleGetClients_answers_error:
  "handleGetClients ws cid s =
     ws_send ws (ErrorMessage ''Failed to retrieve client list'' (Some ReferenceError)) s"
  by (simp add: handleGetClients_def require_wsServer_def catchE_def bindE_def throwE_def)

text \<open>
  The listener of \<open>wsServer.js\<close> answers a text that \<open>JSON.parse\<close> refuses with a message
  tagged \<open>error\<close>, \<open>Failed to process message\<close>, and an object of unknown type with the
  reply of \<open>handleMessage\<close>; in both cases the tables and the transaction are as before.
\<close>

lemma on_message_unparsable:
  "\<not> send_throws ws \<Longrightarrow>
   emitted s (on_message ws Unparsable addr cid s) =
     [(ws_id ws, ErrorMessage ''Failed to process message'' (Some SyntaxError))] \<and>
   store (on_message ws Unparsable addr cid s) = store s \<and>
   txn (on_message ws Unparsable addr cid s) = txn s"
  by (simp add: on_message_def touch_def ws_send_def emitted_def Let_def)

lemma on_message_unknown_type:
  "\<not> send_throws ws \<Longrightarrow>
   msg_type message \<noteq> Some ''requestUpdate'' \<Longrightarrow> msg_type message \<noteq> Some ''extendLimit'' \<Longrightarrow>
   msg_type message \<noteq> Some ''clearDatabase'' \<Longrightarrow> msg_type message \<noteq> Some ''ping'' \<Longrightarrow>
   msg_type message \<noteq> Some ''getClients'' \<Longrightarrow>
   emitted s (on_message ws (Parsed (Some message)) addr cid s) =
     [(ws_id ws, ErrorMessage ''Unknown message type'' None)] \<and>
   store (on_message ws (Parsed (Some message)) addr cid s) = store s \<and>
   txn (on_message ws (Parsed (Some message)) addr cid s) = txn s"
  by (simp add: on_message_def touch_def handleMessage_def ws_send_def emitted_def Let_def)


subsection \<open>The usage payloads\<close>

lemma usage_object_consistent:
  "totalTokensUsed (usage_object u) = total_tokens_used u \<and>
   limit (usage_object u) = total_limit u \<and>
   remaining (usage_object u) = max 0 (limit (usage_object u) - totalTokensUsed (usage_object u)) \<and>
   0 \<le> remaining (usage_object u) \<and>
   exceeded (usage_object u) = (totalTokensUsed (usage_object u) \<ge> limit (usage_object u))"
  by (simp add: usage_object_def)

lemma emitted_broadcastUpdate:
  assumes "handle s"
  shows "emitted s (snd (broadcastUpdate s)) = [] \<or>
         emitted s (snd (broadcastUpdate s)) =
           map (\<lambda>e. (ws_id (fst e),
                      Update (usage_object (ledger (store s)))
                        (Some (fst (select_recent_chats 20 (store s)))) System))
             (filter (\<lambda>e. readyState (fst e) = OPEN \<and> \<not> send_throws (fst e)) (wsClients s))"
  using assms
  apply (cases "next_fault (faults s)"; cases "next_fault (tl (faults s))")
     apply (simp_all add: broadcastUpdate_def Let_def catchE_def bindE_def returnE_def liftE_pair
      getTokenUsage_open getTokenUsage_rejected getRecentChats_open getRecentChats_rejected
      broadcastToAll_wire emitted_def usage_object_def)
  done

lemma emitted_handleRequestUpdate:
  assumes "handle s"
  shows "emitted s (snd (handleRequestUpdate ws addr cid s)) = [] \<or>
         emitted s (snd (handleRequestUpdate ws addr cid s)) =
           [(ws_id ws, ErrorMessage ''Failed to retrieve update data'' (Some StorageFailure))] \<or>
         emitted s (snd (handleRequestUpdate ws addr cid s)) =
           [(ws_id ws, Update (usage_object (ledger (store s)))
                         (Some (fst (select_recent_chats 20 (store s)))) (RequestedBy cid))]"
  using assms
  apply (cases "next_fault (faults s)"; cases "next_fault (tl (faults s))")
     apply (simp_all add: handleRequestUpdate_def Let_def catchE_def bindE_def returnE_def
      getTokenUsage_open getTokenUsage_rejected getRecentChats_open getRecentChats_rejected
      ws_send_def emitted_def usage_object_def)
  done

lemma api_usage_open:
  assumes "handle s"
  shows "fst (api_usage s) =
     (if next_fault (faults s) then Inr (UsageError StorageFailure)
      else if total_tokens_used (ledger (store s)) \<ge> total_limit (ledger (store s))
      then Inr (UsageExceeded \<lparr>totalTokensUsed = total_tokens_used (ledger (store s)),
                               limit = total_limit (ledger (store s)),
                               remaining = 0, exceeded = True\<rparr>)
      else Inr (UsageReport \<lparr>totalTokensUsed = total_tokens_used (ledger (store s)),
                             limit = total_limit (ledger (store s)),
                             remaining = max 0 (total_limit (ledger (store s)) -
                                                total_tokens_used (ledger (store s))),
                             exceeded = False\<rparr>))"
  using assms
  by (simp add: api_usage_def catchE_def bindE_def returnE_def
      getTokenUsage_open getTokenUsage_rejected)

text \<open>
  C10.  With the database open, every message \<open>broadcastUpdate\<close> puts on the wire is an
  \<open>update\<close> whose usage object carries the tokens used and the limit of the ledger,
  \<open>remaining = max(0, limit - used)\<close>, which is never negative, and \<open>exceeded\<close> true
  exactly when \<open>used >= limit\<close>; every message \<open>handleRequestUpdate\<close> sends is such an
  \<open>update\<close> or the error message; and the usage object that the \<open>/api/usage\<close> route
  returns, in either of its two forms, satisfies the same equations.
\<close>

theorem usage_payloads_never_negative:
  "handle s \<longrightarrow>
   (\<forall>d \<in> set (emitted s (snd (broadcastUpdate s))).
      \<exists>u chats. snd d = Update u chats System \<and>
        totalTokensUsed u = total_tokens_used (ledger (store s)) \<and>
        limit u = total_limit (ledger (store s)) \<and>
        remaining u = max 0 (limit u - totalTokensUsed u) \<and> 0 \<le> remaining u \<and>
        exceeded u = (totalTokensUsed u \<ge> limit u)) \<and>
   (\<forall>d \<in> set (emitted s (snd (handleRequestUpdate ws addr cid s))).
      snd d = ErrorMessage ''Failed to retrieve update data'' (Some StorageFailure) \<or>
      (\<exists>u chats. snd d = Update u chats (RequestedBy cid) \<and>
        totalTokensUsed u = total_tokens_used (ledger (store s)) \<and>
        limit u = total_limit (ledger (store s)) \<and>
        remaining u = max 0 (limit u - totalTokensUsed u) \<and> 0 \<le> remaining u \<and>
        exceeded u = (totalTokensUsed u \<ge> limit u))) \<and>
   (\<forall>u. fst (api_usage s) = Inr (UsageExceeded u) \<or> fst (api_usage s) = Inr (UsageReport u) \<longrightarrow>
        totalTokensUsed u = total_tokens_used (ledger (store s)) \<and>
        limit u = total_limit (ledger (store s)) \<and>
        remaining u = max 0 (limit u - totalTokensUsed u) \<and> 0 \<le> remaining u \<and>
        exceeded u = (totalTokensUsed u \<ge> limit u))"
proof
  assume h: "handle s"
  have a: "\<forall>d \<in> set (emitted s (snd (broadcastUpdate s))).
      \<exists>u chats. snd d = Update u chats System \<and>
        totalTokensUsed u = total_tokens_used (ledger (store s)) \<and>
        limit u = total_limit (ledger (store s)) \<and>
        remaining u = max 0 (limit u - totalTokensUsed u) \<and> 0 \<le> remaining u \<and>
        exceeded u = (totalTokensUsed u \<ge> limit u)"
    using emitted_broadcastUpdate [OF h] usage_object_consistent [of "ledger (store s)"]
    by auto
  have b: "\<forall>d \<in> set (emitted s (snd (handleRequestUpdate ws addr cid s))).
      snd d = ErrorMessage ''Failed to retrieve update data'' (Some StorageFailure) \<or>
      (\<exists>u chats. snd d = Update u chats (RequestedBy cid) \<and>
        totalTokensUsed u = total_tokens_used (ledger (store s)) \<and>
        limit u = total_limit (ledger (store s)) \<and>
        remaining u = max 0 (limit u - totalTokensUsed u) \<and> 0 \<le> remaining u \<and>
        exceeded u = (totalTokensUsed u \<ge> limit u))"
    using emitted_handleRequestUpdate [OF h, of ws addr cid]
      usage_object_consistent [of "ledger (store s)"]
    by auto
  have c: "\<forall>u. fst (api_usage s) = Inr (UsageExceeded u) \<or> fst (api_usage s) = Inr (UsageReport u) \<longrightarrow>
        totalTokensUsed u = total_tokens_used (ledger (store s)) \<and>
        limit u = total_limit (ledger (store s)) \<and>
        remaining u = max 0 (limit u - totalTokensUsed u) \<and> 0 \<le> remaining u \<and>
        exceeded u = (totalTokensUsed u \<ge> limit u)"
    by (auto simp add: api_usage_open [OF h] split: if_splits)
  show "(\<forall>d \<in> set (emitted s (snd (broadcastUpdate s))).
      \<exists>u chats. snd d = Update u chats System \<and>
        totalTokensUsed u = total_tokens_used (ledger (store s)) \<and>
        limit u = total_limit (ledger (store s)) \<and>
        remaining u = max 0 (limit u - totalTokensUsed u) \<and> 0 \<le> remaining u \<and>
        exceeded u = (totalTokensUsed u \<ge> limit u)) \<and>
   (\<forall>d \<in> set (emitted s (snd (handleRequestUpdate ws addr cid s))).
      snd d = ErrorMessage ''Failed to retrieve update data'' (Some StorageFailure) \<or>
      (\<exists>u chats. snd d = Update u chats (RequestedBy cid) \<and>
        totalTokensUsed u = total_tokens_used (ledger (store s)) \<and>
        limit u = total_limit (ledger (store s)) \<and>
        remaining u = max 0 (limit u - totalTokensUsed u) \<and> 0 \<le> remaining u \<and>
        exceeded u = (totalTokensUsed u \<ge> limit u))) \<and>
   (\<forall>u. fst (api_usage s) = Inr (UsageExceeded u) \<or> fst (api_usage s) = Inr (UsageReport u) \<longrightarrow>
        totalTokensUsed u = total_tokens_used (ledger (store s)) \<and>
        limit u = total_limit (ledger (store s)) \<and>
        remaining u = max 0 (limit u - totalTokensUsed u) \<and> 0 \<le> remaining u \<and>
        exceeded u = (totalTokensUsed u \<ge> limit u))"
    by (rule conjI [OF a conjI [OF b c]])
qed

theorem usage_payloads_never_negative_witness:
  "handle busy_server \<and>
   emitted busy_server (snd (broadcastUpdate busy_server)) =
     [(1, Update \<lparr>totalTokensUsed = 12000, limit = 10000, remaining = 0, exceeded = True\<rparr>
            (Some (chat_history (store busy_server))) System),
      (3, Update \<lparr>totalTokensUsed = 12000, limit = 10000, remaining = 0, exceeded = True\<rparr>
            (Some (chat_history (store busy_server))) System)] \<and>
   emitted busy_server (snd (handleRequestUpdate
       \<lparr>ws_id = 1, readyState = OPEN, send_throws = False\<rparr> ''::1'' ''A'' busy_server)) =
     [(1, Update \<lparr>totalTokensUsed = 12000, limit = 10000, remaining = 0, exceeded = True\<rparr>
            (Some (chat_history (store busy_server))) (RequestedBy ''A''))] \<and>
   fst (api_usage busy_server) =
     Inr (UsageExceeded \<lparr>totalTokensUsed = 12000, limit = 10000, remaining = 0,
                          exceeded = True\<rparr>) \<and>
   fst (api_usage started_server) =
     Inr (UsageReport \<lparr>totalTokensUsed = 0, limit = 10000, remaining = 10000,
                        exceeded = False\<rparr>)"
  using usage_payloads_never_negative
    [where s = busy_server and ws = "\<lparr>ws_id = 1, readyState = OPEN, send_throws = False\<rparr>"
       and addr = "''::1''" and cid = "''A''"]
  by (simp add: busy_server_def used_server_def three_clients_def started_server_def
      api_usage_open ledger_def emitted_def broadcastUpdate_def handleRequestUpdate_def
      catchE_def bindE_def returnE_def liftE_pair getTokenUsage_open getRecentChats_open
      broadcastToAll_wire usage_object_def select_recent_chats_def ws_send_def)

subsection \<open>Calls in flight together\<close>

text \<open>
  A call run alone goes through the same statements as the function it stands for, and
  ends in the same result and state, whatever the driver rejects.
\<close>

lemma run_alone_extendTokenLimit:
  assumes "handle s"
  shows "run_alone (ExtendTokenLimit a m) s =
     (Extend_returned (fst (extendTokenLimit a m s)), snd (extendTokenLimit a m s))"
  using assms
  by (simp add: run_alone_def extendTokenLimit_def throwE_def bindE_def getDb_open sql_def
      select_usage_stats_def update_total_limit_def getTokenUsage_def returnE_def Let_def
      split: list.splits)

lemma run_alone_addChatEntry:
  assumes "handle s"
  shows "run_alone (AddChatEntry p t g m opts) s =
     (Add_returned (fst (addChatEntry p t g m opts s)), snd (addChatEntry p t g m opts s))"
  using assms
  by (simp add: run_alone_def addChatEntry_def bindE_def getDb_open sql_def returnE_def Let_def
      insert_chat_history_def update_tokens_used_add_def)

text \<open>
  Calls of \<open>addChatEntry\<close> in flight together, in any order of their turns: once all
  have returned, the tokens used have grown by the sum of their counts.  The
  \<open>UPDATE\<close> adds to the column inside one statement, so no turn of another call can
  come between the read and the write.
\<close>

lemma step_add:
  assumes "handle s" and "faults s = []" and "is_add c" and "step c s = (c', s')"
  shows "handle s' \<and> faults s' = [] \<and> is_add c' \<and>
         map total_tokens_used (usage_stats (store s')) =
           map (\<lambda>u. u + (pending c - pending c')) (map total_tokens_used (usage_stats (store s)))"
  using assms
  by (cases c)
     (auto simp add: bindE_def getDb_open sql_def Let_def insert_chat_history_def
        update_tokens_used_add_def comp_def)

lemma sum_list_pending_update:
  "i < length calls \<Longrightarrow>
   sum_list (map pending (calls[i := c])) =
     sum_list (map pending calls) - pending (calls ! i) + pending c"
proof (induction calls arbitrary: i)
  case Nil
  then show ?case by simp
next
  case (Cons x xs)
  then show ?case by (cases i) simp_all
qed

lemma run_adds:
  assumes "handle s" and "faults s = []" and "\<forall>c \<in> set calls. is_add c"
    and "run sched calls s = (calls', s')"
  shows "map total_tokens_used (usage_stats (store s')) =
           map (\<lambda>u. u + (sum_list (map pending calls) - sum_list (map pending calls')))
             (map total_tokens_used (usage_stats (store s)))"
  using assms
proof (induction sched arbitrary: calls s)
  case Nil
  then show ?case by simp
next
  case (Cons i sched)
  show ?case
  proof (cases "i < length calls")
    case False
    with Cons.prems have "run sched calls s = (calls', s')"
      by simp
    with Cons.IH [OF Cons.prems(1) Cons.prems(2) Cons.prems(3)] show ?thesis
      by simp
  next
    case True
    obtain c1 s1 where st: "step (calls ! i) s = (c1, s1)"
      by (cases "step (calls ! i) s")
    from True Cons.prems(3) have "is_add (calls ! i)"
      by simp
    from step_add [OF Cons.prems(1) Cons.prems(2) this st]
    have s1: "handle s1" "faults s1 = []" "is_add c1"
      "map total_tokens_used (usage_stats (store s1)) =
         map (\<lambda>u. u + (pending (calls ! i) - pending c1))
           (map total_tokens_used (usage_stats (store s)))"
      by simp_all
    have adds: "\<forall>c \<in> set (calls[i := c1]). is_add c"
      using Cons.prems(3) s1(3) by (auto dest: set_update_subset_insert [THEN subsetD])
    have "run sched (calls[i := c1]) s1 = (calls', s')"
      using Cons.prems(4) True st by simp
    from Cons.IH [OF s1(1) s1(2) adds this]
    have "map total_tokens_used (usage_stats (store s')) =
           map (\<lambda>u. u + (sum_list (map pending (calls[i := c1])) - sum_list (map pending calls')))
             (map total_tokens_used (usage_stats (store s1)))" .
    then show ?thesis
      by (simp add: s1(4) sum_list_pending_update [OF True] comp_def algebra_simps)
  qed
qed

lemma returned_pending: "has_returned c \<Longrightarrow> pending c = 0"
  by (cases c) simp_all

lemma concurrent_increments_all_counted:
  assumes "handle s" and "faults s = []" and "\<forall>c \<in> set calls. is_add c"
    and "run sched calls s = (calls', s')" and "\<forall>c \<in> set calls'. has_returned c"
  shows "map total_tokens_used (usage_stats (store s')) =
           map (\<lambda>u. u + sum_list (map pending calls))
             (map total_tokens_used (usage_stats (store s)))"
proof -
  have "sum_list (map pending calls') = 0"
    using assms(5) by (induction calls') (simp_all add: returned_pending)
  with run_adds [OF assms(1) assms(2) assms(3) assms(4)] show ?thesis
    by simp
qed

lemma concurrent_increments_example:
  "run [1, 0, 1, 0]
     [AddChatEntry ''a'' ''b'' (Some (Num 4000)) ''m'' \<lparr>opt_temperature = None, opt_maxTokens = None\<rparr>,
      AddChatEntry ''c'' ''d'' (Some (Num 11000)) ''m'' \<lparr>opt_temperature = None, opt_maxTokens = None\<rparr>]
     started_server = (calls', s') \<Longrightarrow>
   map total_tokens_used (usage_stats (store s')) = [15000] \<and>
   calls' = [Add_returned (Inr \<lparr>chatId = 2, tokensAdded = 4000\<rparr>),
             Add_returned (Inr \<lparr>chatId = 1, tokensAdded = 11000\<rparr>)]"
  by (auto simp add: started_server_def bindE_def getDb_def returnE_def sql_def Let_def
      insert_chat_history_def update_tokens_used_add_def next_chat_id_def sequence_of_def)

text \<open>
  C6.  Two calls of \<open>extendTokenLimit\<close> in flight together on the ledger \<open>0 / 10000\<close>, by
  5000 and by 3000, taking turns at each \<open>await\<close>: both read the limit 10000, the first
  writes 15000, the second writes 13000, and both return success with the new limit
  13000.  The limit ends at 13000 and the extension by 5000 is lost, where the same two
  calls one after the other leave 18000.  The function reads the limit in one
  statement and writes the sum in another.
\<close>

theorem concurrent_extensions_lose_an_update:
  "run [0, 1, 0, 1, 0, 1]
     [ExtendTokenLimit (Num 5000) (Num 20000), ExtendTokenLimit (Num 3000) (Num 20000)]
     started_server =
     ([Extend_returned (Inr \<lparr>success = True, previousLimit = 10000, newLimit = 13000,
                              amountAdded = 5000, currentUsage = 0\<rparr>),
       Extend_returned (Inr \<lparr>success = True, previousLimit = 10000, newLimit = 13000,
                              amountAdded = 3000, currentUsage = 0\<rparr>)],
      started_server\<lparr>store := (store started_server)
         \<lparr>usage_stats := [\<lparr>total_tokens_used = 0, total_limit = 13000\<rparr>]\<rparr>\<rparr>) \<and>
   run [0, 0, 0, 1, 1, 1]
     [ExtendTokenLimit (Num 5000) (Num 20000), ExtendTokenLimit (Num 3000) (Num 20000)]
     started_server =
     ([Extend_returned (Inr \<lparr>success = True, previousLimit = 10000, newLimit = 15000,
                              amountAdded = 5000, currentUsage = 0\<rparr>),
       Extend_returned (Inr \<lparr>success = True, previousLimit = 15000, newLimit = 18000,
                              amountAdded = 3000, currentUsage = 0\<rparr>)],
      started_server\<lparr>store := (store started_server)
         \<lparr>usage_stats := [\<lparr>total_tokens_used = 0, total_limit = 18000\<rparr>]\<rparr>\<rparr>)"
  by (simp add: started_server_def bindE_def getDb_def returnE_def sql_def
      select_usage_stats_def update_total_limit_def getTokenUsage_def Let_def js_plus_safe)

subsection \<open>More on extending the limit\<close>

text \<open>
  The one way \<open>extendTokenLimit\<close> can throw after it has written: the driver rejects
  the read that follows the \<open>UPDATE\<close>.
\<close>

lemma extendTokenLimit_read_back_rejected:
  "handle s \<Longrightarrow> \<not> next_fault (faults s) \<Longrightarrow> \<not> next_fault (tl (faults s)) \<Longrightarrow>
   next_fault (tl (tl (faults s))) \<Longrightarrow> usage_stats (store s) = r # rs \<Longrightarrow>
   0 < a \<Longrightarrow> a \<le> m \<Longrightarrow> \<bar>total_limit r + a\<bar> \<le> 9007199254740992 \<Longrightarrow>
   extendTokenLimit (Num a) (Num m) s =
     (Inl StorageFailure,
      s\<lparr>store := (store s)\<lparr>usage_stats :=
             map (\<lambda>r'. r'\<lparr>total_limit := total_limit r + a\<rparr>) (usage_stats (store s))\<rparr>,
        faults := tl (tl (tl (faults s)))\<rparr>)"
  by (simp add: extendTokenLimit_def bindE_def getDb_open sql_accepted returnE_def Let_def
        select_usage_stats_def update_total_limit_def getTokenUsage_rejected js_plus_safe)

text \<open>
  Past \<open>2^53\<close> the addition of the language rounds: on a limit of \<open>2^53\<close> an extension by
  one leaves the limit where it was.
\<close>

lemma bit_length_odd: "bit_length (2 * n + 1) = Suc (bit_length n)"
  by (subst bit_length.simps) simp

lemma js_plus_rounds: "js_plus 9007199254740992 1 = 9007199254740992"
proof -
  have a: "bit_length (2 * 2 ^ 52 + 1) = Suc (bit_length (2 ^ 52))"
    by (rule bit_length_odd)
  have b: "bit_length (2 ^ 52) = Suc 52"
    by (rule bit_length_power)
  have "bit_length 9007199254740993 = 54"
    using a unfolding b by simp
  then show ?thesis
    by (simp add: js_plus_def round53_def round53_nat_def Let_def)
qed

end
